theory Spec2Isabelle
  imports Complex_Main
begin

section \<open>Arrays, dictionaries and errors\<close>

text \<open>
  The stationary wavelet transforms of \<^verbatim>\<open>pywt/_swt.py\<close> work on numpy arrays. An array
  is a shape and a flat, row-major buffer. Three element kinds are kept apart: float64,
  complex128 and \<^verbatim>\<open>object\<close> (whose contents are not carried). Integer arrays are outside
  the model.
\<close>

datatype buffer = FloatData "real list" | ComplexData "complex list" | ObjectData

datatype ndarray = NDArray (shape: "nat list") (buf: buffer)

definition ndim :: "ndarray \<Rightarrow> nat" where
  "ndim x = length (shape x)"

fun is_complex_buf :: "buffer \<Rightarrow> bool" where
  "is_complex_buf (ComplexData zs) = True"
| "is_complex_buf (FloatData xs) = False"
| "is_complex_buf ObjectData = False"

definition iscomplexobj :: "ndarray \<Rightarrow> bool" where
  "iscomplexobj x = is_complex_buf (buf x)"

fun real_buf :: "buffer \<Rightarrow> buffer" where
  "real_buf (FloatData xs) = FloatData xs"
| "real_buf (ComplexData zs) = FloatData (map Re zs)"
| "real_buf ObjectData = ObjectData"

fun imag_buf :: "buffer \<Rightarrow> buffer" where
  "imag_buf (FloatData xs) = FloatData (map (\<lambda>x. 0) xs)"
| "imag_buf (ComplexData zs) = FloatData (map Im zs)"
| "imag_buf ObjectData = ObjectData"

definition real_part :: "ndarray \<Rightarrow> ndarray" where
  "real_part x = NDArray (shape x) (real_buf (buf x))"

definition imag_part :: "ndarray \<Rightarrow> ndarray" where
  "imag_part x = NDArray (shape x) (imag_buf (buf x))"

text \<open>
  Errors. The constructors named after a Python exception are the ones the functions of
  \<^verbatim>\<open>_swt.py\<close> raise themselves (or that the interpreter raises in their bodies);
  \<open>External\<close> wraps whatever an external transform primitive raises.
\<close>

datatype error =
    TypeError_not_numeric
  | ValueError_at_least_1D
  | ValueError_axes_unique
  | ValueError_num_axes
  | ValueError_axis_range
  | ValueError_expected_2_axes
  | ValueError_fewer_dims
  | ValueError_wavelets
  | ValueError_empty_max
  | ValueError_broadcast
  | RuntimeError_shape_mismatch
  | TypeError_cast
  | TypeError_unsized
  | AxisError
  | IndexError
  | KeyError
  | External string

text \<open>A Python dictionary with string keys: an association list with distinct keys.\<close>

type_synonym 'v dict = "(string \<times> 'v) list"

definition dict_get :: "'v dict \<Rightarrow> string \<Rightarrow> error + 'v" where
  "dict_get d k = (case map_of d k of None \<Rightarrow> Inl KeyError | Some v \<Rightarrow> Inr v)"

fun dict_set :: "'v dict \<Rightarrow> string \<Rightarrow> 'v \<Rightarrow> 'v dict" where
  "dict_set [] k v = [(k, v)]"
| "dict_set ((k', v') # d) k v = (if k' = k then (k, v) # d else (k', v') # dict_set d k v)"

definition dict_pop :: "'v dict \<Rightarrow> string \<Rightarrow> error + ('v \<times> 'v dict)" where
  "dict_pop d k =
     (case map_of d k of
        None \<Rightarrow> Inl KeyError
      | Some v \<Rightarrow> Inr (v, filter (\<lambda>kv. fst kv \<noteq> k) d))"

definition dict_of_pairs :: "(string \<times> 'v) list \<Rightarrow> 'v dict" where
  "dict_of_pairs ps = foldl (\<lambda>d kv. dict_set d (fst kv) (snd kv)) [] ps"

text \<open>
  \<^verbatim>\<open>r + 1j * i\<close> on two arrays. numpy would broadcast unequal but compatible shapes;
  the model accepts equal shapes only and reports the rest as a broadcasting error.
\<close>

fun as_complex :: "buffer \<Rightarrow> complex list option" where
  "as_complex (FloatData xs) = Some (map complex_of_real xs)"
| "as_complex (ComplexData zs) = Some zs"
| "as_complex ObjectData = None"

definition add_1j_times :: "ndarray \<Rightarrow> ndarray \<Rightarrow> error + ndarray" where
  "add_1j_times r i =
     (if shape r \<noteq> shape i then Inl ValueError_broadcast
      else case as_complex (buf r) of
             None \<Rightarrow> Inr (NDArray (shape r) ObjectData)
           | Some a \<Rightarrow>
               (case as_complex (buf i) of
                  None \<Rightarrow> Inr (NDArray (shape r) ObjectData)
                | Some b \<Rightarrow>
                    Inr (NDArray (shape r) (ComplexData (map2 (\<lambda>x y. x + \<i> * y) a b)))))"

section \<open>External collaborators\<close>

text \<open>
  The compiled transform primitives, the build flag \<^verbatim>\<open>_have_c99_complex\<close> and the
  level bound are imported by \<^verbatim>\<open>_swt.py\<close> from modules that are not part of the
  sources at hand; they are parameters of the model. A primitive either raises (the
  message on the left) or returns. \<open>check_dtype\<close> stands for the conversion
  \<^verbatim>\<open>np.asarray(x, dtype=_check_dtype(x))\<close>; resolving a wavelet name (\<^verbatim>\<open>_as_wavelet\<close>) is
  left to the primitive that receives the name.
\<close>

type_synonym wavelet = string

record env =
  have_c99_complex :: bool
  swt_axis :: "ndarray \<Rightarrow> wavelet \<Rightarrow> int \<Rightarrow> int \<Rightarrow> int \<Rightarrow> string + (ndarray \<times> ndarray) list"
  swt_1d :: "ndarray \<Rightarrow> wavelet \<Rightarrow> int \<Rightarrow> int \<Rightarrow> string + (ndarray \<times> ndarray) list"
  swt_max_level :: "nat \<Rightarrow> int"
  check_dtype :: "ndarray \<Rightarrow> string + ndarray"
  idwt_single :: "ndarray \<Rightarrow> ndarray \<Rightarrow> wavelet \<Rightarrow> string + ndarray"
  idwtn :: "ndarray dict \<Rightarrow> wavelet list \<Rightarrow> int list \<Rightarrow> string + ndarray"

datatype wavelet_sel = Single wavelet | PerAxis "wavelet list"

text \<open>
  Modelled from the spec: \<^verbatim>\<open>_wavelets_per_axis\<close> of \<^verbatim>\<open>pywt/_utils.py\<close>, which is
  not among the sources. The spec: a wavelet selector is "either one wavelet identifier
  applied to every transformed axis, or a sequence of exactly k identifiers, one per axis,
  in axis-set order".
\<close>

definition wavelets_per_axis :: "wavelet_sel \<Rightarrow> int list \<Rightarrow> error + wavelet list" where
  "wavelets_per_axis sel axes =
     (case sel of
        Single w \<Rightarrow> Inr (replicate (length axes) w)
      | PerAxis ws \<Rightarrow> if length ws = length axes then Inr ws else Inl ValueError_wavelets)"

section \<open>The forward transform over several axes: \<^verbatim>\<open>swtn\<close>\<close>

definition normalize_axes :: "nat \<Rightarrow> int list \<Rightarrow> int list" where
  "normalize_axes nd axes = map (\<lambda>a. if a < 0 then a + int nd else a) axes"

definition default_axes :: "nat \<Rightarrow> int list option \<Rightarrow> int list" where
  "default_axes nd axes = (case axes of None \<Rightarrow> map int [0..<nd] | Some as \<Rightarrow> as)"

text \<open>Lines 409-413: every sub-band found so far is split along one axis.\<close>

fun swtn_split :: "env \<Rightarrow> wavelet \<Rightarrow> int \<Rightarrow> int \<Rightarrow> (string \<times> ndarray) list
    \<Rightarrow> error + (string \<times> ndarray) list" where
  "swtn_split E w i axis [] = Inr []"
| "swtn_split E w i axis ((subband, x) # rest) =
     (case swt_axis E x w 1 i axis of
        Inl msg \<Rightarrow> Inl (External msg)
      | Inr [] \<Rightarrow> Inl IndexError
      | Inr ((cA, cD) # others) \<Rightarrow>
          (case swtn_split E w i axis rest of
             Inl e \<Rightarrow> Inl e
           | Inr new_coeffs \<Rightarrow>
               Inr ((subband @ ''a'', cA) # (subband @ ''d'', cD) # new_coeffs)))"

text \<open>Lines 407-414: the loop over \<^verbatim>\<open>zip(axes, wavelets)\<close>.\<close>

fun swtn_axes :: "env \<Rightarrow> int \<Rightarrow> (int \<times> wavelet) list \<Rightarrow> (string \<times> ndarray) list
    \<Rightarrow> error + (string \<times> ndarray) list" where
  "swtn_axes E i [] coeffs = Inr coeffs"
| "swtn_axes E i ((axis, w) # aws) coeffs =
     (case swtn_split E w i axis coeffs of
        Inl e \<Rightarrow> Inl e
      | Inr new_coeffs \<Rightarrow> swtn_axes E i aws new_coeffs)"

text \<open>Lines 406-416: the coefficient set of one level, computed from \<open>data\<close>.\<close>

definition swtn_level :: "env \<Rightarrow> (int \<times> wavelet) list \<Rightarrow> ndarray \<Rightarrow> int
    \<Rightarrow> error + ndarray dict" where
  "swtn_level E aws data i =
     (case swtn_axes E i aws [('''', data)] of
        Inl e \<Rightarrow> Inl e
      | Inr coeffs \<Rightarrow> Inr (dict_of_pairs coeffs))"

text \<open>
  Lines 405-420: the loop over \<^verbatim>\<open>range(start_level, start_level + level)\<close>; \<open>n\<close> counts
  the iterations that remain, \<open>ret\<close> is the list built so far.
\<close>

fun swtn_loop :: "env \<Rightarrow> (int \<times> wavelet) list \<Rightarrow> nat \<Rightarrow> ndarray \<Rightarrow> int \<Rightarrow> nat
    \<Rightarrow> ndarray dict list \<Rightarrow> error + ndarray dict list" where
  "swtn_loop E aws num_axes data i 0 ret = Inr ret"
| "swtn_loop E aws num_axes data i (Suc n) ret =
     (case swtn_level E aws data i of
        Inl e \<Rightarrow> Inl e
      | Inr coeffs \<Rightarrow>
          (case dict_get coeffs (replicate num_axes CHR ''a'') of
             Inl e \<Rightarrow> Inl e
           | Inr data' \<Rightarrow> swtn_loop E aws num_axes data' (i + 1) n (ret @ [coeffs])))"

text \<open>Lines 390-423: the body of \<^verbatim>\<open>swtn\<close> after the complex branch.\<close>

definition swtn_real :: "env \<Rightarrow> ndarray \<Rightarrow> wavelet_sel \<Rightarrow> int \<Rightarrow> int \<Rightarrow> int list option
    \<Rightarrow> error + ndarray dict list" where
  "swtn_real E data wavelet level start_level axes =
     (if buf data = ObjectData then Inl TypeError_not_numeric
      else if ndim data < 1 then Inl ValueError_at_least_1D
      else let axes' = normalize_axes (ndim data) (default_axes (ndim data) axes) in
        if length axes' \<noteq> length (remdups axes') then Inl ValueError_axes_unique
        else case wavelets_per_axis wavelet axes' of
               Inl e \<Rightarrow> Inl e
             | Inr wavelets \<Rightarrow>
                 (case swtn_loop E (zip axes' wavelets) (length axes') data start_level
                         (nat level) [] of
                    Inl e \<Rightarrow> Inl e
                  | Inr ret \<Rightarrow> Inr (rev ret)))"

text \<open>Lines 385-387: one complex level from the real and the imaginary one.\<close>

fun combine_items :: "string list \<Rightarrow> ndarray dict \<Rightarrow> ndarray dict \<Rightarrow> error + ndarray dict" where
  "combine_items [] rdict idict = Inr []"
| "combine_items (k # ks) rdict idict =
     (case dict_get rdict k of
        Inl e \<Rightarrow> Inl e
      | Inr r \<Rightarrow>
          (case dict_get idict k of
             Inl e \<Rightarrow> Inl e
           | Inr i \<Rightarrow>
               (case add_1j_times r i of
                  Inl e \<Rightarrow> Inl e
                | Inr c \<Rightarrow>
                    (case combine_items ks rdict idict of
                       Inl e \<Rightarrow> Inl e
                     | Inr rest \<Rightarrow> Inr ((k, c) # rest)))))"

fun combine_levels :: "ndarray dict list \<Rightarrow> ndarray dict list \<Rightarrow> error + ndarray dict list" where
  "combine_levels (rdict # rs) (idict # is) =
     (case combine_items (map fst rdict) rdict idict of
        Inl e \<Rightarrow> Inl e
      | Inr c \<Rightarrow>
          (case combine_levels rs is of
             Inl e \<Rightarrow> Inl e
           | Inr cplx \<Rightarrow> Inr (dict_of_pairs c # cplx)))"
| "combine_levels rs is = Inr []"

text \<open>
  \<^verbatim>\<open>swtn\<close>. The real and the imaginary parts of a complex array are not complex, so the
  two recursive calls of lines 382-383 run the body after the branch.
\<close>

definition swtn :: "env \<Rightarrow> ndarray \<Rightarrow> wavelet_sel \<Rightarrow> int \<Rightarrow> int \<Rightarrow> int list option
    \<Rightarrow> error + ndarray dict list" where
  "swtn E data wavelet level start_level axes =
     (if \<not> have_c99_complex E \<and> iscomplexobj data then
        (case swtn_real E (real_part data) wavelet level start_level axes of
           Inl e \<Rightarrow> Inl e
         | Inr rs \<Rightarrow>
             (case swtn_real E (imag_part data) wavelet level start_level axes of
                Inl e \<Rightarrow> Inl e
              | Inr is \<Rightarrow> combine_levels rs is))
      else swtn_real E data wavelet level start_level axes)"

section \<open>Indexing arrays\<close>

text \<open>
  A slice with a start, a stop and a step (all non-negative here, the step positive:
  the code builds its steps as powers of two), or \<^verbatim>\<open>slice(None)\<close>.
\<close>

datatype slice = SliceAll | Slice nat nat nat

fun slice_indices :: "nat \<Rightarrow> slice \<Rightarrow> nat list" where
  "slice_indices n SliceAll = [0..<n]"
| "slice_indices n (Slice start stop step) =
     map (\<lambda>i. start + i * step) [0..<(min stop n - start + step - 1) div step]"

definition ravel :: "nat list \<Rightarrow> nat list \<Rightarrow> nat" where
  "ravel shp idx = foldl (\<lambda>acc ni. acc * fst ni + snd ni) 0 (zip shp idx)"

definition region :: "nat list \<Rightarrow> slice list \<Rightarrow> nat list list" where
  "region shp sl = map2 slice_indices shp (sl @ replicate (length shp - length sl) SliceAll)"

definition positions :: "nat list \<Rightarrow> nat list list \<Rightarrow> nat list" where
  "positions shp r = map (ravel shp) (List.product_lists r)"

fun buf_gather :: "nat list \<Rightarrow> buffer \<Rightarrow> buffer" where
  "buf_gather ps (FloatData xs) = FloatData (map (\<lambda>p. xs ! p) ps)"
| "buf_gather ps (ComplexData zs) = ComplexData (map (\<lambda>p. zs ! p) ps)"
| "buf_gather ps ObjectData = ObjectData"

text \<open>\<^verbatim>\<open>value[tuple(slices)]\<close>: more slices than dimensions is an IndexError.\<close>

definition getitem :: "ndarray \<Rightarrow> slice list \<Rightarrow> error + ndarray" where
  "getitem x sl =
     (if length sl > ndim x then Inl IndexError
      else let r = region (shape x) sl in
        Inr (NDArray (map length r) (buf_gather (positions (shape x) r) (buf x))))"

definition scatter :: "('a \<Rightarrow> 'b \<Rightarrow> 'a) \<Rightarrow> nat list \<Rightarrow> 'b list \<Rightarrow> 'a list \<Rightarrow> 'a list" where
  "scatter f ps vs xs = fold (\<lambda>pv ys. ys[fst pv := f (ys ! fst pv) (snd pv)]) (zip ps vs) xs"

text \<open>\<^verbatim>\<open>output[tuple(indices)] = 0\<close>.\<close>

fun buf_zero_at :: "nat list \<Rightarrow> buffer \<Rightarrow> buffer" where
  "buf_zero_at ps (FloatData xs) = FloatData (scatter (\<lambda>old v. v) ps (map (\<lambda>p. 0) ps) xs)"
| "buf_zero_at ps (ComplexData zs) = ComplexData (scatter (\<lambda>old v. v) ps (map (\<lambda>p. 0) ps) zs)"
| "buf_zero_at ps ObjectData = ObjectData"

definition set_zero :: "ndarray \<Rightarrow> slice list \<Rightarrow> error + ndarray" where
  "set_zero x sl =
     (if length sl > ndim x then Inl IndexError
      else Inr (NDArray (shape x) (buf_zero_at (positions (shape x) (region (shape x) sl)) (buf x))))"

text \<open>
  \<^verbatim>\<open>output[tuple(indices)] += x\<close>. An in-place addition casts under numpy's
  \<^verbatim>\<open>same_kind\<close> rule, so a complex or an object summand cannot go into a float array.
  As for \<open>add_1j_times\<close>, the shapes have to agree.
\<close>

fun buf_add_at :: "nat list \<Rightarrow> buffer \<Rightarrow> buffer \<Rightarrow> error + buffer" where
  "buf_add_at ps (FloatData xs) (FloatData vs) = Inr (FloatData (scatter (+) ps vs xs))"
| "buf_add_at ps (FloatData xs) (ComplexData vs) = Inl TypeError_cast"
| "buf_add_at ps (FloatData xs) ObjectData = Inl TypeError_cast"
| "buf_add_at ps (ComplexData zs) (FloatData vs) =
     Inr (ComplexData (scatter (+) ps (map complex_of_real vs) zs))"
| "buf_add_at ps (ComplexData zs) (ComplexData vs) = Inr (ComplexData (scatter (+) ps vs zs))"
| "buf_add_at ps (ComplexData zs) ObjectData = Inl TypeError_cast"
| "buf_add_at ps ObjectData v = Inr ObjectData"

definition add_at :: "ndarray \<Rightarrow> slice list \<Rightarrow> ndarray \<Rightarrow> error + ndarray" where
  "add_at x sl v =
     (if length sl > ndim x then Inl IndexError
      else let r = region (shape x) sl in
        if map length r \<noteq> shape v then Inl ValueError_broadcast
        else case buf_add_at (positions (shape x) r) (buf x) (buf v) of
               Inl e \<Rightarrow> Inl e
             | Inr b \<Rightarrow> Inr (NDArray (shape x) b))"

text \<open>\<^verbatim>\<open>output[tuple(indices)] /= ntransforms\<close>.\<close>

fun buf_div_at :: "nat list \<Rightarrow> nat \<Rightarrow> buffer \<Rightarrow> buffer" where
  "buf_div_at ps n (FloatData xs) =
     FloatData (scatter (\<lambda>old v. old / v) ps (map (\<lambda>p. real n) ps) xs)"
| "buf_div_at ps n (ComplexData zs) =
     ComplexData (scatter (\<lambda>old v. old / v) ps (map (\<lambda>p. of_nat n) ps) zs)"
| "buf_div_at ps n ObjectData = ObjectData"

definition div_at :: "ndarray \<Rightarrow> slice list \<Rightarrow> nat \<Rightarrow> error + ndarray" where
  "div_at x sl n =
     (if length sl > ndim x then Inl IndexError
      else Inr (NDArray (shape x) (buf_div_at (positions (shape x) (region (shape x) sl)) n (buf x))))"

text \<open>\<^verbatim>\<open>np.roll(x, 1, axis=ax)\<close>: a circular shift by one place along one axis.\<close>

definition roll1 :: "ndarray \<Rightarrow> int \<Rightarrow> error + ndarray" where
  "roll1 x ax =
     (let nd = int (ndim x); a = (if ax < 0 then ax + nd else ax) in
      if 0 \<le> a \<and> a < nd then
        (let k = nat a; n = shape x ! k in
         Inr (NDArray (shape x)
           (buf_gather
              (map (\<lambda>mi. ravel (shape x) (mi[k := (mi ! k + n - 1) mod n]))
                 (List.product_lists (map (\<lambda>m. [0..<m]) (shape x))))
              (buf x))))
      else Inl AxisError)"

text \<open>Reading and writing a Python list at an integer index, which may be negative.\<close>

definition list_get :: "'a list \<Rightarrow> int \<Rightarrow> error + 'a" where
  "list_get xs i =
     (let n = int (length xs); j = (if i < 0 then i + n else i) in
      if 0 \<le> j \<and> j < n then Inr (xs ! nat j) else Inl IndexError)"

definition list_set :: "'a list \<Rightarrow> int \<Rightarrow> 'a \<Rightarrow> error + 'a list" where
  "list_set xs i v =
     (let n = int (length xs); j = (if i < 0 then i + n else i) in
      if 0 \<le> j \<and> j < n then Inr (xs[nat j := v]) else Inl IndexError)"

section \<open>The inverse transform over several axes: \<^verbatim>\<open>iswtn\<close>\<close>

text \<open>
  The four lists of slices of lines 481-484. They are created once, before the loops,
  and only the entries at the transformed axes are ever assigned.
\<close>

record slice_state =
  indices :: "slice list"
  even_indices :: "slice list"
  odd_indices :: "slice list"
  odd_even_slices :: "slice list"

text \<open>Lines 500-503, over \<^verbatim>\<open>zip(firsts, dshape, axes)\<close>.\<close>

fun set_slices :: "nat \<Rightarrow> (nat \<times> nat \<times> int) list \<Rightarrow> slice_state \<Rightarrow> error + slice_state" where
  "set_slices step_size [] S = Inr S"
| "set_slices step_size ((first, sh, ax) # rest) S =
     (case list_set (indices S) ax (Slice first sh step_size) of
        Inl e \<Rightarrow> Inl e
      | Inr ind \<Rightarrow>
          (case list_set (even_indices S) ax (Slice first sh (2 * step_size)) of
             Inl e \<Rightarrow> Inl e
           | Inr ev \<Rightarrow>
               (case list_set (odd_indices S) ax (Slice (first + step_size) sh (2 * step_size)) of
                  Inl e \<Rightarrow> Inl e
                | Inr od \<Rightarrow>
                    set_slices step_size rest
                      (S\<lparr>indices := ind, even_indices := ev, odd_indices := od\<rparr>))))"

text \<open>Lines 510-514, over \<^verbatim>\<open>zip(odds, axes)\<close>.\<close>

fun choose_slices :: "(nat \<times> int) list \<Rightarrow> slice_state \<Rightarrow> error + slice_state" where
  "choose_slices [] S = Inr S"
| "choose_slices ((od, ax) # rest) S =
     (case list_get (if od \<noteq> 0 then odd_indices S else even_indices S) ax of
        Inl e \<Rightarrow> Inl e
      | Inr sl \<Rightarrow>
          (case list_set (odd_even_slices S) ax sl of
             Inl e \<Rightarrow> Inl e
           | Inr oe \<Rightarrow> choose_slices rest (S\<lparr>odd_even_slices := oe\<rparr>)))"

text \<open>Lines 516-518.\<close>

fun slice_details :: "slice list \<Rightarrow> ndarray dict \<Rightarrow> error + ndarray dict" where
  "slice_details sl [] = Inr []"
| "slice_details sl ((key, val) # rest) =
     (case getitem val sl of
        Inl e \<Rightarrow> Inl e
      | Inr v \<Rightarrow>
          (case slice_details sl rest of
             Inl e \<Rightarrow> Inl e
           | Inr d \<Rightarrow> Inr ((key, v) # d)))"

text \<open>Lines 525-528.\<close>

fun roll_odds :: "(nat \<times> int) list \<Rightarrow> ndarray \<Rightarrow> error + ndarray" where
  "roll_odds [] x = Inr x"
| "roll_odds ((od, ax) # rest) x =
     (if od \<noteq> 0 then
        (case roll1 x ax of
           Inl e \<Rightarrow> Inl e
         | Inr x' \<Rightarrow> roll_odds rest x')
      else roll_odds rest x)"

text \<open>Lines 509-530: the loop over the odd/even choices.\<close>

fun iswtn_odds :: "env \<Rightarrow> wavelet list \<Rightarrow> int list \<Rightarrow> string \<Rightarrow> ndarray dict \<Rightarrow> ndarray
    \<Rightarrow> nat list list \<Rightarrow> slice_state \<Rightarrow> ndarray \<Rightarrow> nat
    \<Rightarrow> error + (slice_state \<times> ndarray \<times> nat)" where
  "iswtn_odds E wavelets axes akey details approx [] S output ntransforms =
     Inr (S, output, ntransforms)"
| "iswtn_odds E wavelets axes akey details approx (odds # rest) S output ntransforms =
     (case choose_slices (zip odds axes) S of
        Inl e \<Rightarrow> Inl e
      | Inr S' \<Rightarrow>
     (case slice_details (odd_even_slices S') details of
        Inl e \<Rightarrow> Inl e
      | Inr details_slice \<Rightarrow>
     (case getitem approx (odd_even_slices S') of
        Inl e \<Rightarrow> Inl e
      | Inr approx_slice \<Rightarrow>
     (case idwtn E (dict_set details_slice akey approx_slice) wavelets axes of
        Inl msg \<Rightarrow> Inl (External msg)
      | Inr x \<Rightarrow>
     (case roll_odds (zip odds axes) x of
        Inl e \<Rightarrow> Inl e
      | Inr x' \<Rightarrow>
     (case add_at output (indices S') x' of
        Inl e \<Rightarrow> Inl e
      | Inr output' \<Rightarrow>
          iswtn_odds E wavelets axes akey details approx rest S' output'
            (ntransforms + 1)))))))"

text \<open>Lines 499-531: the loop over the offsets.\<close>

fun iswtn_firsts :: "env \<Rightarrow> wavelet list \<Rightarrow> int list \<Rightarrow> string \<Rightarrow> ndarray dict \<Rightarrow> nat list
    \<Rightarrow> nat \<Rightarrow> nat list list \<Rightarrow> slice_state \<Rightarrow> ndarray
    \<Rightarrow> error + (slice_state \<times> ndarray)" where
  "iswtn_firsts E wavelets axes akey details dshape step_size [] S output = Inr (S, output)"
| "iswtn_firsts E wavelets axes akey details dshape step_size (firsts # rest) S output =
     (case set_slices step_size (zip firsts (zip dshape axes)) S of
        Inl e \<Rightarrow> Inl e
      | Inr S1 \<Rightarrow>
     (case set_zero output (indices S1) of
        Inl e \<Rightarrow> Inl e
      | Inr output0 \<Rightarrow>
     (case iswtn_odds E wavelets axes akey details output
             (List.product_lists (replicate (length akey) [0, 1])) S1 output0 0 of
        Inl e \<Rightarrow> Inl e
      | Inr (S2, output1, ntransforms) \<Rightarrow>
     (case div_at output1 (indices S2) ntransforms of
        Inl e \<Rightarrow> Inl e
      | Inr output2 \<Rightarrow>
          iswtn_firsts E wavelets axes akey details dshape step_size rest S2 output2))))"

text \<open>
  Lines 486-532: the loop over the levels. \<open>coeffs\<close> is the caller's list of
  dictionaries, which \<^verbatim>\<open>pop\<close> and the assignment of line 532 change in place; the
  function returns it as it stands when the call ends, next to the result or the error.
  \<open>j\<close> is the loop index and \<open>n\<close> the number of iterations that remain.
\<close>

fun iswtn_levels :: "env \<Rightarrow> wavelet list \<Rightarrow> int list \<Rightarrow> string \<Rightarrow> nat \<Rightarrow> nat \<Rightarrow> nat
    \<Rightarrow> slice_state \<Rightarrow> ndarray \<Rightarrow> ndarray dict list
    \<Rightarrow> (error + ndarray) \<times> ndarray dict list" where
  "iswtn_levels E wavelets axes akey num_levels j 0 S output coeffs = (Inr output, coeffs)"
| "iswtn_levels E wavelets axes akey num_levels j (Suc n) S output coeffs =
     (let step_size = 2 ^ (num_levels - j - 1) in
      case dict_pop (coeffs ! j) akey of
        Inl e \<Rightarrow> (Inl e, coeffs)
      | Inr (a, details) \<Rightarrow>
          (let coeffs1 = coeffs[j := details] in
           case map (\<lambda>kv. shape (snd kv)) details of
             [] \<Rightarrow> (Inl IndexError, coeffs1)
           | dshape # others \<Rightarrow>
               if length (remdups (dshape # others)) \<noteq> 1
               then (Inl RuntimeError_shape_mismatch, coeffs1)
               else
                 (case iswtn_firsts E wavelets axes akey details dshape step_size
                         (List.product_lists (replicate (length akey) [0..<step_size]))
                         S output of
                    Inl e \<Rightarrow> (Inl e, coeffs1)
                  | Inr (S', output') \<Rightarrow>
                      iswtn_levels E wavelets axes akey num_levels (j + 1) n S' output'
                        (coeffs1[j := dict_set details akey a]))))"

text \<open>Line 461: \<^verbatim>\<open>max(len(key) for key in coeffs[0].keys())\<close>.\<close>

definition max_key_length :: "'v dict \<Rightarrow> error + nat" where
  "max_key_length d =
     (case map (\<lambda>kv. length (fst kv)) d of
        [] \<Rightarrow> Inl ValueError_empty_max
      | l # ls \<Rightarrow> Inr (foldl max l ls))"

text \<open>\<^verbatim>\<open>iswtn\<close>, lines 461-533.\<close>

definition iswtn :: "env \<Rightarrow> ndarray dict list \<Rightarrow> wavelet_sel \<Rightarrow> int list option
    \<Rightarrow> (error + ndarray) \<times> ndarray dict list" where
  "iswtn E coeffs wavelet axes =
     (case coeffs of
        [] \<Rightarrow> (Inl IndexError, coeffs)
      | c0 # cs \<Rightarrow>
          (case max_key_length c0 of
             Inl e \<Rightarrow> (Inl e, coeffs)
           | Inr ndim_transform \<Rightarrow>
               (let akey = replicate ndim_transform CHR ''a'' in
                case dict_get c0 akey of
                  Inl e \<Rightarrow> (Inl e, coeffs)
                | Inr output \<Rightarrow>
                    (let nd = ndim output;
                         axes' = normalize_axes nd (default_axes nd axes) in
                     if length axes' \<noteq> length (remdups axes')
                     then (Inl ValueError_axes_unique, coeffs)
                     else if ndim_transform \<noteq> length axes'
                     then (Inl ValueError_num_axes, coeffs)
                     else
                       (case wavelets_per_axis wavelet axes' of
                          Inl e \<Rightarrow> (Inl e, coeffs)
                        | Inr wavelets \<Rightarrow>
                            iswtn_levels E wavelets axes' akey (length coeffs) 0 (length coeffs)
                              \<lparr>indices = replicate nd SliceAll,
                               even_indices = replicate nd SliceAll,
                               odd_indices = replicate nd SliceAll,
                               odd_even_slices = replicate nd SliceAll\<rparr>
                              output coeffs)))))"

section \<open>The inverse transform along one axis: \<^verbatim>\<open>iswt\<close>\<close>

text \<open>\<^verbatim>\<open>len(x)\<close> of an array: the extent of its first axis.\<close>

definition py_len :: "ndarray \<Rightarrow> error + nat" where
  "py_len x = (case shape x of [] \<Rightarrow> Inl TypeError_unsized | n # rest \<Rightarrow> Inr n)"

text \<open>\<^verbatim>\<open>xs[0::2]\<close> and \<^verbatim>\<open>xs[1::2]\<close>.\<close>

fun evens :: "'a list \<Rightarrow> 'a list" where
  "evens [] = []"
| "evens [x] = [x]"
| "evens (x # y # xs) = x # evens xs"

fun odds :: "'a list \<Rightarrow> 'a list" where
  "odds [] = []"
| "odds [x] = []"
| "odds (x # y # xs) = y # odds xs"

text \<open>Indexing the first axis with an array of integers: \<^verbatim>\<open>output[even_indices]\<close>.\<close>

definition row_positions :: "nat \<Rightarrow> nat list \<Rightarrow> nat list" where
  "row_positions row_size idx = concat (map (\<lambda>r. map (\<lambda>c. r * row_size + c) [0..<row_size]) idx)"

definition take_rows :: "ndarray \<Rightarrow> nat list \<Rightarrow> error + ndarray" where
  "take_rows x idx =
     (case shape x of
        [] \<Rightarrow> Inl IndexError
      | n # rest \<Rightarrow>
          if list_ex (\<lambda>i. n \<le> i) idx then Inl IndexError
          else Inr (NDArray (length idx # rest)
                 (buf_gather (row_positions (prod_list rest) idx) (buf x))))"

text \<open>
  \<^verbatim>\<open>output[indices] = v\<close>. An assignment casts to the element kind of the target, and
  drops the imaginary parts when a complex value goes into a float array. The contents
  of an object array are not carried, so assigning one into a numeric array is reported
  as a cast error.
\<close>

fun buf_assign_at :: "nat list \<Rightarrow> buffer \<Rightarrow> buffer \<Rightarrow> error + buffer" where
  "buf_assign_at ps (FloatData xs) (FloatData vs) = Inr (FloatData (scatter (\<lambda>old v. v) ps vs xs))"
| "buf_assign_at ps (FloatData xs) (ComplexData vs) =
     Inr (FloatData (scatter (\<lambda>old v. v) ps (map Re vs) xs))"
| "buf_assign_at ps (FloatData xs) ObjectData = Inl TypeError_cast"
| "buf_assign_at ps (ComplexData zs) (FloatData vs) =
     Inr (ComplexData (scatter (\<lambda>old v. v) ps (map complex_of_real vs) zs))"
| "buf_assign_at ps (ComplexData zs) (ComplexData vs) =
     Inr (ComplexData (scatter (\<lambda>old v. v) ps vs zs))"
| "buf_assign_at ps (ComplexData zs) ObjectData = Inl TypeError_cast"
| "buf_assign_at ps ObjectData v = Inr ObjectData"

definition put_rows :: "ndarray \<Rightarrow> nat list \<Rightarrow> ndarray \<Rightarrow> error + ndarray" where
  "put_rows x idx v =
     (case shape x of
        [] \<Rightarrow> Inl IndexError
      | n # rest \<Rightarrow>
          if list_ex (\<lambda>i. n \<le> i) idx then Inl IndexError
          else if shape v \<noteq> length idx # rest then Inl ValueError_broadcast
          else case buf_assign_at (row_positions (prod_list rest) idx) (buf x) (buf v) of
                 Inl e \<Rightarrow> Inl e
               | Inr b \<Rightarrow> Inr (NDArray (shape x) b))"

text \<open>\<^verbatim>\<open>(x1 + x2)/2.\<close>, again for equal shapes.\<close>

fun buf_add :: "buffer \<Rightarrow> buffer \<Rightarrow> buffer" where
  "buf_add (FloatData xs) (FloatData ys) = FloatData (map2 (+) xs ys)"
| "buf_add (FloatData xs) (ComplexData ys) = ComplexData (map2 (+) (map complex_of_real xs) ys)"
| "buf_add (ComplexData xs) (FloatData ys) = ComplexData (map2 (+) xs (map complex_of_real ys))"
| "buf_add (ComplexData xs) (ComplexData ys) = ComplexData (map2 (+) xs ys)"
| "buf_add ObjectData y = ObjectData"
| "buf_add x ObjectData = ObjectData"

fun buf_halve :: "buffer \<Rightarrow> buffer" where
  "buf_halve (FloatData xs) = FloatData (map (\<lambda>v. v / 2) xs)"
| "buf_halve (ComplexData zs) = ComplexData (map (\<lambda>v. v / 2) zs)"
| "buf_halve ObjectData = ObjectData"

definition mean2 :: "ndarray \<Rightarrow> ndarray \<Rightarrow> error + ndarray" where
  "mean2 x y =
     (if shape x \<noteq> shape y then Inl ValueError_broadcast
      else Inr (NDArray (shape x) (buf_halve (buf_add (buf x) (buf y)))))"

text \<open>\<^verbatim>\<open>np.roll(x, 1)\<close> without an axis: the flattened array is shifted.\<close>

fun rotate_right :: "'a list \<Rightarrow> 'a list" where
  "rotate_right [] = []"
| "rotate_right (x # xs) = last (x # xs) # butlast (x # xs)"

fun buf_roll :: "buffer \<Rightarrow> buffer" where
  "buf_roll (FloatData xs) = FloatData (rotate_right xs)"
| "buf_roll (ComplexData zs) = ComplexData (rotate_right zs)"
| "buf_roll ObjectData = ObjectData"

definition roll_flat :: "ndarray \<Rightarrow> ndarray" where
  "roll_flat x = NDArray (shape x) (buf_roll (buf x))"

text \<open>Lines 133-158: the loop over \<^verbatim>\<open>first\<close>.\<close>

fun iswt_firsts :: "env \<Rightarrow> wavelet \<Rightarrow> ndarray \<Rightarrow> nat \<Rightarrow> nat list \<Rightarrow> ndarray \<Rightarrow> error + ndarray" where
  "iswt_firsts E w cD step_size [] output = Inr output"
| "iswt_firsts E w cD step_size (first # rest) output =
     (case py_len cD of
        Inl e \<Rightarrow> Inl e
      | Inr n \<Rightarrow>
     (let ind = slice_indices n (Slice first n step_size);
          even_ind = evens ind;
          odd_ind = odds ind in
      case take_rows output even_ind of
        Inl e \<Rightarrow> Inl e
      | Inr out_even \<Rightarrow>
     (case take_rows cD even_ind of
        Inl e \<Rightarrow> Inl e
      | Inr cD_even \<Rightarrow>
     (case idwt_single E out_even cD_even w of
        Inl msg \<Rightarrow> Inl (External msg)
      | Inr x1 \<Rightarrow>
     (case take_rows output odd_ind of
        Inl e \<Rightarrow> Inl e
      | Inr out_odd \<Rightarrow>
     (case take_rows cD odd_ind of
        Inl e \<Rightarrow> Inl e
      | Inr cD_odd \<Rightarrow>
     (case idwt_single E out_odd cD_odd w of
        Inl msg \<Rightarrow> Inl (External msg)
      | Inr x2 \<Rightarrow>
     (case mean2 x1 (roll_flat x2) of
        Inl e \<Rightarrow> Inl e
      | Inr m \<Rightarrow>
     (case put_rows output ind m of
        Inl e \<Rightarrow> Inl e
      | Inr output' \<Rightarrow> iswt_firsts E w cD step_size rest output')))))))))"

text \<open>
  Lines 127-158: the loop over \<^verbatim>\<open>j = num_levels, ..., 1\<close>, which reads
  \<^verbatim>\<open>coeffs[num_levels - j]\<close>: the pairs in their order, \<open>j\<close> being the number of pairs
  not yet used.
\<close>

fun iswt_levels :: "env \<Rightarrow> wavelet \<Rightarrow> (ndarray \<times> ndarray) list \<Rightarrow> ndarray \<Rightarrow> error + ndarray" where
  "iswt_levels E w [] output = Inr output"
| "iswt_levels E w ((cA, cD) # rest) output =
     (let j = Suc (length rest); step_size = 2 ^ (j - 1) in
      case check_dtype E cD of
        Inl msg \<Rightarrow> Inl (External msg)
      | Inr cD' \<Rightarrow>
          (case iswt_firsts E w cD' step_size [0..<step_size] output of
             Inl e \<Rightarrow> Inl e
           | Inr output' \<Rightarrow> iswt_levels E w rest output'))"

text \<open>Lines 116 and 124-160: \<^verbatim>\<open>iswt\<close> without its complex branch.\<close>

definition iswt_real :: "env \<Rightarrow> (ndarray \<times> ndarray) list \<Rightarrow> wavelet \<Rightarrow> error + ndarray" where
  "iswt_real E coeffs w =
     (case coeffs of
        [] \<Rightarrow> Inl IndexError
      | c0 # cs \<Rightarrow> iswt_levels E w coeffs (fst c0))"

text \<open>
  \<^verbatim>\<open>iswt\<close>. The recursive calls of line 121 receive real and imaginary parts, which are
  not complex, and so run the rest of the body.
\<close>

definition iswt :: "env \<Rightarrow> (ndarray \<times> ndarray) list \<Rightarrow> wavelet \<Rightarrow> error + ndarray" where
  "iswt E coeffs w =
     (case coeffs of
        [] \<Rightarrow> Inl IndexError
      | c0 # cs \<Rightarrow>
          if \<not> have_c99_complex E \<and> iscomplexobj (fst c0) then
            (case iswt_real E (map (\<lambda>c. (real_part (fst c), real_part (snd c))) coeffs) w of
               Inl e \<Rightarrow> Inl e
             | Inr r \<Rightarrow>
                 (case iswt_real E (map (\<lambda>c. (imag_part (fst c), imag_part (snd c))) coeffs) w of
                    Inl e \<Rightarrow> Inl e
                  | Inr i \<Rightarrow> add_1j_times r i))
          else iswt_real E coeffs w)"

section \<open>The forward transform along one axis: \<^verbatim>\<open>swt\<close>\<close>

text \<open>Lines 69-86.\<close>

definition swt_real :: "env \<Rightarrow> ndarray \<Rightarrow> wavelet \<Rightarrow> int option \<Rightarrow> int \<Rightarrow> int
    \<Rightarrow> error + (ndarray \<times> ndarray) list" where
  "swt_real E data0 w level start_level axis0 =
     (case check_dtype E data0 of
        Inl msg \<Rightarrow> Inl (External msg)
      | Inr data \<Rightarrow>
          (let axis = (if axis0 < 0 then axis0 + int (ndim data) else axis0) in
           if \<not> (0 \<le> axis \<and> axis < int (ndim data)) then Inl ValueError_axis_range
           else
             (let lev = (case level of
                           None \<Rightarrow> swt_max_level E (shape data ! nat axis)
                         | Some l \<Rightarrow> l) in
              case (if ndim data = 1 then swt_1d E data w lev start_level
                    else swt_axis E data w lev start_level axis) of
                Inl msg \<Rightarrow> Inl (External msg)
              | Inr ret \<Rightarrow> Inr ret)))"

text \<open>Lines 64-65.\<close>

fun combine_pairs :: "(ndarray \<times> ndarray) list \<Rightarrow> (ndarray \<times> ndarray) list
    \<Rightarrow> error + (ndarray \<times> ndarray) list" where
  "combine_pairs ((cA_r, cD_r) # rs) ((cA_i, cD_i) # is) =
     (case add_1j_times cA_r cA_i of
        Inl e \<Rightarrow> Inl e
      | Inr cA \<Rightarrow>
          (case add_1j_times cD_r cD_i of
             Inl e \<Rightarrow> Inl e
           | Inr cD \<Rightarrow>
               (case combine_pairs rs is of
                  Inl e \<Rightarrow> Inl e
                | Inr coeffs_cplx \<Rightarrow> Inr ((cA, cD) # coeffs_cplx))))"
| "combine_pairs rs is = Inr []"

text \<open>
  \<^verbatim>\<open>swt\<close>. The calls of lines 61-62 pass no axis, so they run with the default
  \<^verbatim>\<open>axis=-1\<close>; their arguments are not complex.
\<close>

definition swt :: "env \<Rightarrow> ndarray \<Rightarrow> wavelet \<Rightarrow> int option \<Rightarrow> int \<Rightarrow> int
    \<Rightarrow> error + (ndarray \<times> ndarray) list" where
  "swt E data w level start_level axis =
     (if \<not> have_c99_complex E \<and> iscomplexobj data then
        (case swt_real E (real_part data) w level start_level (- 1) of
           Inl e \<Rightarrow> Inl e
         | Inr coeffs_real \<Rightarrow>
             (case swt_real E (imag_part data) w level start_level (- 1) of
                Inl e \<Rightarrow> Inl e
              | Inr coeffs_imag \<Rightarrow> combine_pairs coeffs_real coeffs_imag))
      else swt_real E data w level start_level axis)"

section \<open>The two-axis wrapper \<^verbatim>\<open>swt2\<close>\<close>

fun swt2_pack :: "ndarray dict list
    \<Rightarrow> error + (ndarray \<times> (ndarray \<times> ndarray \<times> ndarray)) list" where
  "swt2_pack [] = Inr []"
| "swt2_pack (c # coefs) =
     (case dict_get c ''aa'' of Inl e \<Rightarrow> Inl e | Inr aa \<Rightarrow>
     (case dict_get c ''da'' of Inl e \<Rightarrow> Inl e | Inr da \<Rightarrow>
     (case dict_get c ''ad'' of Inl e \<Rightarrow> Inl e | Inr ad \<Rightarrow>
     (case dict_get c ''dd'' of Inl e \<Rightarrow> Inl e | Inr dd \<Rightarrow>
     (case swt2_pack coefs of
        Inl e \<Rightarrow> Inl e
      | Inr ret \<Rightarrow> Inr ((aa, (da, ad, dd)) # ret))))))"

definition swt2 :: "env \<Rightarrow> ndarray \<Rightarrow> wavelet_sel \<Rightarrow> int \<Rightarrow> int \<Rightarrow> int list
    \<Rightarrow> error + (ndarray \<times> (ndarray \<times> ndarray \<times> ndarray)) list" where
  "swt2 E data wavelet level start_level axes =
     (if length axes \<noteq> 2 then Inl ValueError_expected_2_axes
      else if length axes \<noteq> length (remdups axes) then Inl ValueError_axes_unique
      else if ndim data < length (remdups axes) then Inl ValueError_fewer_dims
      else case swtn E data wavelet level start_level (Some axes) of
             Inl e \<Rightarrow> Inl e
           | Inr coefs \<Rightarrow> swt2_pack coefs)"

section \<open>An instance of the external primitives\<close>

text \<open>
  To run the functions above on data, the parameters need values. The instance below is
  the Haar filter pair with periodic extension, without the factor \<open>1 / sqrt 2\<close> (the
  analysis side halves instead), on float arrays. One analysis step at level \<open>i\<close> pairs
  each sample with the one \<open>2 ^ i\<close> places further along the axis; one synthesis
  step doubles the axis and is its exact inverse on the pairs it was computed from.
\<close>

definition all_indices :: "nat list \<Rightarrow> nat list list" where
  "all_indices shp = List.product_lists (map (\<lambda>m. [0..<m]) shp)"

definition haar_pair :: "nat list \<Rightarrow> nat \<Rightarrow> nat \<Rightarrow> real list \<Rightarrow> real list \<times> real list" where
  "haar_pair shp k gap xs =
     (let n = shp ! k;
          here = (\<lambda>mi. xs ! ravel shp mi);
          there = (\<lambda>mi. xs ! ravel shp (mi[k := (mi ! k + gap) mod n])) in
      (map (\<lambda>mi. (here mi + there mi) / 2) (all_indices shp),
       map (\<lambda>mi. (here mi - there mi) / 2) (all_indices shp)))"

fun haar_levels :: "nat list \<Rightarrow> nat \<Rightarrow> real list \<Rightarrow> nat \<Rightarrow> nat \<Rightarrow> (ndarray \<times> ndarray) list
    \<Rightarrow> (ndarray \<times> ndarray) list" where
  "haar_levels shp k xs i 0 acc = acc"
| "haar_levels shp k xs i (Suc n) acc =
     (let cAD = haar_pair shp k (2 ^ i) xs in
      haar_levels shp k (fst cAD) (i + 1) n
        ((NDArray shp (FloatData (fst cAD)), NDArray shp (FloatData (snd cAD))) # acc))"

definition haar_swt_axis :: "ndarray \<Rightarrow> wavelet \<Rightarrow> int \<Rightarrow> int \<Rightarrow> int
    \<Rightarrow> string + (ndarray \<times> ndarray) list" where
  "haar_swt_axis x w level start_level axis =
     (case buf x of
        FloatData xs \<Rightarrow>
          (let nd = int (ndim x); a = (if axis < 0 then axis + nd else axis) in
           if 0 \<le> a \<and> a < nd \<and> 0 \<le> start_level
           then Inr (haar_levels (shape x) (nat a) xs (nat start_level) (nat level) [])
           else Inl ''axis'')
      | ComplexData zs \<Rightarrow> Inl ''dtype''
      | ObjectData \<Rightarrow> Inl ''dtype'')"

definition haar_merge :: "int \<Rightarrow> ndarray \<Rightarrow> ndarray \<Rightarrow> string + ndarray" where
  "haar_merge axis a d =
     (case buf a of
        FloatData as \<Rightarrow>
          (case buf d of
             FloatData ds \<Rightarrow>
               (let nd = int (ndim a); ax = (if axis < 0 then axis + nd else axis) in
                if shape a = shape d \<and> 0 \<le> ax \<and> ax < nd then
                  (let k = nat ax; shp = (shape a)[k := 2 * (shape a ! k)] in
                   Inr (NDArray shp (FloatData
                     (map (\<lambda>mi. let src = ravel (shape a) (mi[k := mi ! k div 2]) in
                                 if even (mi ! k) then as ! src + ds ! src
                                 else as ! src - ds ! src)
                        (all_indices shp)))))
                else Inl ''shape'')
           | ComplexData zs \<Rightarrow> Inl ''dtype''
           | ObjectData \<Rightarrow> Inl ''dtype'')
      | ComplexData zs \<Rightarrow> Inl ''dtype''
      | ObjectData \<Rightarrow> Inl ''dtype'')"

fun haar_merge_pairs :: "int \<Rightarrow> string list \<Rightarrow> ndarray dict \<Rightarrow> string + ndarray dict" where
  "haar_merge_pairs axis [] d = Inr []"
| "haar_merge_pairs axis (p # ps) d =
     (case map_of d (p @ ''a'') of
        None \<Rightarrow> Inl ''key''
      | Some a \<Rightarrow>
          (case map_of d (p @ ''d'') of
             None \<Rightarrow> Inl ''key''
           | Some dd \<Rightarrow>
               (case haar_merge axis a dd of
                  Inl msg \<Rightarrow> Inl msg
                | Inr x \<Rightarrow>
                    (case haar_merge_pairs axis ps d of
                       Inl msg \<Rightarrow> Inl msg
                     | Inr r \<Rightarrow> Inr ((p, x) # r)))))"

fun haar_idwtn_axes :: "int list \<Rightarrow> ndarray dict \<Rightarrow> string + ndarray" where
  "haar_idwtn_axes [] d = (case map_of d [] of None \<Rightarrow> Inl ''key'' | Some x \<Rightarrow> Inr x)"
| "haar_idwtn_axes (axis # axes) d =
     (case haar_merge_pairs axis (remdups (map (\<lambda>kv. butlast (fst kv)) d)) d of
        Inl msg \<Rightarrow> Inl msg
      | Inr d' \<Rightarrow> haar_idwtn_axes axes d')"

definition haar_idwtn :: "ndarray dict \<Rightarrow> wavelet list \<Rightarrow> int list \<Rightarrow> string + ndarray" where
  "haar_idwtn d wavelets axes = haar_idwtn_axes (rev axes) d"

primrec halvings :: "nat \<Rightarrow> nat \<Rightarrow> int" where
  "halvings 0 n = 0"
| "halvings (Suc fuel) n = (if n = 0 \<or> odd n then 0 else 1 + halvings fuel (n div 2))"

definition haar_check_dtype :: "ndarray \<Rightarrow> string + ndarray" where
  "haar_check_dtype x = (case buf x of ObjectData \<Rightarrow> Inl ''object'' | FloatData xs \<Rightarrow> Inr x
                          | ComplexData zs \<Rightarrow> Inr x)"

definition haar_env :: env where
  "haar_env =
     \<lparr>have_c99_complex = False,
      swt_axis = haar_swt_axis,
      swt_1d = (\<lambda>x w level start_level. haar_swt_axis x w level start_level 0),
      swt_max_level = (\<lambda>n. halvings n n),
      check_dtype = haar_check_dtype,
      idwt_single = (\<lambda>a d w. haar_merge 0 a d),
      idwtn = haar_idwtn\<rparr>"

text \<open>The same instance with transform primitives that raise whenever they are called.\<close>

definition failing_env :: env where
  "failing_env =
     haar_env\<lparr>swt_axis := (\<lambda>x w level start_level axis. Inl ''called''),
              swt_1d := (\<lambda>x w level start_level. Inl ''called''),
              idwt_single := (\<lambda>a d w. Inl ''called''),
              idwtn := (\<lambda>d wavelets axes. Inl ''called'')\<rparr>"

section \<open>Notions used to state the properties\<close>

text \<open>
  The keys of one level over \<open>k\<close> axes: \<open>2 ^ k\<close> distinct strings, namely all strings
  of length \<open>k\<close> over the letters \<open>a\<close> and \<open>d\<close>.
\<close>

definition subband_keys :: "nat \<Rightarrow> string list \<Rightarrow> bool" where
  "subband_keys k ks \<longleftrightarrow>
     distinct ks \<and> length ks = 2 ^ k \<and> set ks = {s. length s = k \<and> set s \<subseteq> {CHR ''a'', CHR ''d''}}"

text \<open>
  The contract of the forward primitive that the shape statements rest on: whatever it
  returns has the shape of its input.
\<close>

definition shape_preserving :: "env \<Rightarrow> bool" where
  "shape_preserving E \<longleftrightarrow>
     (\<forall>x w l s ax res p. swt_axis E x w l s ax = Inr res \<longrightarrow> p \<in> set res \<longrightarrow>
        shape (fst p) = shape x \<and> shape (snd p) = shape x)"

text \<open>
  \<open>computed_in_order E aws k data i cs\<close>: the list \<open>cs\<close> holds the coefficient sets of
  the level indices \<open>i, i + 1, ...\<close> in this order, the first computed from \<open>data\<close> and
  each further one from the all-approximation entry of the one before.
\<close>

fun computed_in_order :: "env \<Rightarrow> (int \<times> wavelet) list \<Rightarrow> nat \<Rightarrow> ndarray \<Rightarrow> int
    \<Rightarrow> ndarray dict list \<Rightarrow> bool" where
  "computed_in_order E aws k data i [] = True"
| "computed_in_order E aws k data i (c # cs) =
     (swtn_level E aws data i = Inr c \<and>
      (case dict_get c (replicate k CHR ''a'') of
         Inl e \<Rightarrow> False
       | Inr data' \<Rightarrow> computed_in_order E aws k data' (i + 1) cs))"

text \<open>
  \<open>level_order\<close>: read backwards, \<open>ret\<close> is computed in increasing order from
  \<open>start_level\<close>; so its element \<open>n\<close> is the coefficient set of level index
  \<open>start_level + (length ret - 1 - n)\<close>.
\<close>

definition level_order :: "env \<Rightarrow> (int \<times> wavelet) list \<Rightarrow> nat \<Rightarrow> ndarray \<Rightarrow> int
    \<Rightarrow> ndarray dict list \<Rightarrow> bool" where
  "level_order E aws k data start_level ret \<longleftrightarrow>
     computed_in_order E aws k data start_level (rev ret) \<and>
     (\<forall>n<length ret. \<exists>x. swtn_level E aws x (start_level + int (length ret - 1 - n)) = Inr (ret ! n))"

text \<open>Lines 386-387 for one level: the complex level made of a real and an imaginary one.\<close>

definition combined_level :: "ndarray dict \<Rightarrow> ndarray dict \<Rightarrow> error + ndarray dict" where
  "combined_level rdict idict =
     (case combine_items (map fst rdict) rdict idict of
        Inl e \<Rightarrow> Inl e
      | Inr c \<Rightarrow> Inr (dict_of_pairs c))"

text \<open>
  The errors of the argument checks that \<^verbatim>\<open>swtn\<close> and \<^verbatim>\<open>iswtn\<close> make before their
  loops: an object array, fewer than one dimension, a repeated axis, a number of axes that
  differs from the key length, a wrong number of wavelets. Neither function checks the range
  of an axis, and the shapes of the sub-bands are compared inside the loop of \<^verbatim>\<open>iswtn\<close>:
  an axis out of range and a shape mismatch are no argument errors in this sense.
\<close>

definition argument_error :: "error \<Rightarrow> bool" where
  "argument_error e \<longleftrightarrow>
     e = TypeError_not_numeric \<or> e = ValueError_at_least_1D \<or> e = ValueError_axes_unique \<or>
     e = ValueError_num_axes \<or> e = ValueError_wavelets"

text \<open>
  What the complex-splitting contract asks of \<^verbatim>\<open>swt\<close>: the transforms of the real and of
  the imaginary part, with the same parameters, combined pair by pair.
\<close>

definition swt_of_parts :: "env \<Rightarrow> ndarray \<Rightarrow> wavelet \<Rightarrow> int option \<Rightarrow> int \<Rightarrow> int
    \<Rightarrow> error + (ndarray \<times> ndarray) list" where
  "swt_of_parts E data w level start_level axis =
     (case swt E (real_part data) w level start_level axis of
        Inl e \<Rightarrow> Inl e
      | Inr r \<Rightarrow>
          (case swt E (imag_part data) w level start_level axis of
             Inl e \<Rightarrow> Inl e
           | Inr i \<Rightarrow> combine_pairs r i))"

subsection \<open>Data for the examples\<close>

definition ones :: "nat list \<Rightarrow> ndarray" where
  "ones shp = NDArray shp (FloatData (replicate (prod_list shp) 1))"


definition sig4 :: ndarray where
  "sig4 = NDArray [4] (FloatData [1, 2, 3, 4])"

text \<open>The two levels that \<^verbatim>\<open>swtn\<close> returns for \<open>sig4\<close> under the Haar instance.\<close>

definition sig4_coeffs :: "ndarray dict list" where
  "sig4_coeffs =
     [[(''a'', NDArray [4] (FloatData [5 / 2, 5 / 2, 5 / 2, 5 / 2])),
       (''d'', NDArray [4] (FloatData [- 1, 0, 1, 0]))],
      [(''a'', NDArray [4] (FloatData [3 / 2, 5 / 2, 7 / 2, 5 / 2])),
       (''d'', NDArray [4] (FloatData [- (1 / 2), - (1 / 2), - (1 / 2), 3 / 2]))]]"

definition mat24 :: ndarray where
  "mat24 = NDArray [2, 4] (FloatData [1, 2, 3, 4, 5, 6, 7, 8])"

text \<open>The level that \<^verbatim>\<open>swtn\<close> returns for \<open>mat24\<close> along its last axis.\<close>

definition mat24_coeffs :: "ndarray dict list" where
  "mat24_coeffs =
     [[(''a'', NDArray [2, 4] (FloatData [3 / 2, 5 / 2, 7 / 2, 5 / 2, 11 / 2, 13 / 2, 15 / 2, 13 / 2])),
       (''d'', NDArray [2, 4] (FloatData [- (1 / 2), - (1 / 2), - (1 / 2), 3 / 2,
                                          - (1 / 2), - (1 / 2), - (1 / 2), 3 / 2]))]]"

definition z22 :: ndarray where
  "z22 = NDArray [2, 2] (ComplexData [Complex 1 1, Complex 2 0, Complex 3 0, Complex 4 2])"

definition z4 :: ndarray where
  "z4 = NDArray [4] (ComplexData [Complex 1 1, Complex 2 0, Complex 3 0, Complex 4 2])"

text \<open>The two levels that \<^verbatim>\<open>swtn\<close> returns for \<open>z4\<close> under the Haar instance.\<close>

definition z4_coeffs :: "ndarray dict list" where
  "z4_coeffs =
     [[(''a'', NDArray [4] (ComplexData [Complex (5 / 2) (3 / 4), Complex (5 / 2) (3 / 4),
                                         Complex (5 / 2) (3 / 4), Complex (5 / 2) (3 / 4)])),
       (''d'', NDArray [4] (ComplexData [Complex (- 1) (- (1 / 4)), Complex 0 (- (3 / 4)),
                                         Complex 1 (1 / 4), Complex 0 (3 / 4)]))],
      [(''a'', NDArray [4] (ComplexData [Complex (3 / 2) (1 / 2), Complex (5 / 2) 0,
                                         Complex (7 / 2) 1, Complex (5 / 2) (3 / 2)])),
       (''d'', NDArray [4] (ComplexData [Complex (- (1 / 2)) (1 / 2), Complex (- (1 / 2)) 0,
                                         Complex (- (1 / 2)) (- 1), Complex (3 / 2) (1 / 2)]))]]"

definition level_uniform :: "ndarray dict" where
  "level_uniform = [(''aa'', ones [4, 4]), (''ad'', ones [4, 4]), (''da'', ones [4, 4]), (''dd'', ones [4, 4])]"

definition level_mismatched :: "ndarray dict" where
  "level_mismatched = [(''aa'', ones [4, 4]), (''ad'', ones [4, 4]), (''da'', ones [4, 4]), (''dd'', ones [4, 2])]"


section \<open>Auxiliary facts\<close>

lemma dict_set_fresh: "k \<notin> fst ` set d \<Longrightarrow> dict_set d k v = d @ [(k, v)]"
  by (induction d) auto

lemma foldl_dict_set_distinct:
  "distinct (map fst (d @ ps)) \<Longrightarrow> foldl (\<lambda>d kv. dict_set d (fst kv) (snd kv)) d ps = d @ ps"
proof (induction ps arbitrary: d)
  case Nil
  then show ?case by simp
next
  case (Cons p ps)
  have fresh: "fst p \<notin> fst ` set d" using Cons.prems by auto
  have "distinct (map fst ((d @ [p]) @ ps))" using Cons.prems by simp
  from Cons.IH[OF this] show ?case
    using dict_set_fresh[OF fresh, of "snd p"] by simp
qed

lemma dict_of_pairs_distinct: "distinct (map fst ps) \<Longrightarrow> dict_of_pairs ps = ps"
  using foldl_dict_set_distinct[of "[]" ps] by (simp add: dict_of_pairs_def)

lemma swtn_split_keys:
  "swtn_split E w i ax cs = Inr new \<Longrightarrow>
   map fst new = concat (map (\<lambda>k. [k @ ''a'', k @ ''d'']) (map fst cs))"
  by (induction cs arbitrary: new) (auto split: sum.splits list.splits prod.splits)

lemma split_keys_distinct:
  "distinct ks \<Longrightarrow> distinct (concat (map (\<lambda>k. [k @ ''a'', k @ ''d'']) ks))"
  by (induction ks) auto

lemma split_keys_set:
  "set ks = {s. length s = k \<and> set s \<subseteq> {CHR ''a'', CHR ''d''}} \<Longrightarrow>
   set (concat (map (\<lambda>k. [k @ ''a'', k @ ''d'']) ks)) =
     {s. length s = Suc k \<and> set s \<subseteq> {CHR ''a'', CHR ''d''}}"
proof (intro set_eqI iffI)
  fix s assume a: "set ks = {s. length s = k \<and> set s \<subseteq> {CHR ''a'', CHR ''d''}}"
    and "s \<in> set (concat (map (\<lambda>k. [k @ ''a'', k @ ''d'']) ks))"
  then obtain p where "p \<in> set ks" "s = p @ ''a'' \<or> s = p @ ''d''" by auto
  with a show "s \<in> {s. length s = Suc k \<and> set s \<subseteq> {CHR ''a'', CHR ''d''}}" by auto
next
  fix s assume a: "set ks = {s. length s = k \<and> set s \<subseteq> {CHR ''a'', CHR ''d''}}"
    and s: "s \<in> {s. length s = Suc k \<and> set s \<subseteq> {CHR ''a'', CHR ''d''}}"
  then have ne: "s \<noteq> []" by auto
  then have eq: "s = butlast s @ [last s]" by simp
  have "set (butlast s) \<subseteq> set s" by (meson in_set_butlastD subsetI)
  with s a have p: "butlast s \<in> set ks" by auto
  have "last s \<in> set s" using ne by simp
  with s have "last s = CHR ''a'' \<or> last s = CHR ''d''" by auto
  with eq have "s = butlast s @ ''a'' \<or> s = butlast s @ ''d''" by metis
  with p show "s \<in> set (concat (map (\<lambda>k. [k @ ''a'', k @ ''d'']) ks))" by auto
qed

lemma split_keys_length:
  "length (concat (map (\<lambda>k. [k @ ''a'', k @ ''d'']) ks)) = 2 * length ks"
  by (induction ks) auto

lemma subband_keys_step:
  "subband_keys k ks \<Longrightarrow> subband_keys (Suc k) (concat (map (\<lambda>k. [k @ ''a'', k @ ''d'']) ks))"
  unfolding subband_keys_def
  using split_keys_distinct[of ks] split_keys_set[of ks k] split_keys_length[of ks] by simp

lemma subband_keys_0: "subband_keys 0 ['''']"
  by (auto simp: subband_keys_def)

lemma swtn_axes_keys:
  "swtn_axes E i aws cs = Inr out \<Longrightarrow> subband_keys k (map fst cs) \<Longrightarrow>
   subband_keys (k + length aws) (map fst out)"
proof (induction aws arbitrary: cs k)
  case Nil
  then show ?case by simp
next
  case (Cons aw aws)
  obtain ax w where aw: "aw = (ax, w)" by (cases aw)
  from Cons.prems(1) aw obtain new where
    new: "swtn_split E w i ax cs = Inr new" and rest: "swtn_axes E i aws new = Inr out"
    by (auto split: sum.splits)
  have "subband_keys (Suc k) (map fst new)"
    using swtn_split_keys[OF new] subband_keys_step[OF Cons.prems(2)] by simp
  from Cons.IH[OF rest this] show ?case by simp
qed

lemma swtn_level_keys:
  assumes "swtn_level E aws data i = Inr c"
  shows "subband_keys (length aws) (map fst c)"
proof -
  from assms obtain cs where cs: "swtn_axes E i aws [('''', data)] = Inr cs"
    and c: "c = dict_of_pairs cs"
    by (auto simp: swtn_level_def split: sum.splits)
  have k: "subband_keys (length aws) (map fst cs)"
    using swtn_axes_keys[OF cs, of 0] subband_keys_0 by simp
  then have "distinct (map fst cs)" by (simp add: subband_keys_def)
  with c k show ?thesis by (simp add: dict_of_pairs_distinct)
qed

lemma swtn_split_shapes:
  "shape_preserving E \<Longrightarrow> swtn_split E w i ax cs = Inr new \<Longrightarrow>
   \<forall>p\<in>set cs. shape (snd p) = s \<Longrightarrow> \<forall>p\<in>set new. shape (snd p) = s"
proof (induction cs arbitrary: new)
  case Nil
  then show ?case by simp
next
  case (Cons c cs)
  obtain subband x where c: "c = (subband, x)" by (cases c)
  from Cons.prems(2) c obtain cA cD others new' where
    prim: "swt_axis E x w 1 i ax = Inr ((cA, cD) # others)" and
    rest: "swtn_split E w i ax cs = Inr new'" and
    new: "new = (subband @ ''a'', cA) # (subband @ ''d'', cD) # new'"
    by (auto split: sum.splits list.splits prod.splits)
  have "shape cA = shape x \<and> shape cD = shape x"
    using Cons.prems(1) prim unfolding shape_preserving_def by fastforce
  moreover have "shape x = s" using Cons.prems(3) c by simp
  moreover have "\<forall>p\<in>set new'. shape (snd p) = s"
    using Cons.IH[OF Cons.prems(1) rest] Cons.prems(3) by simp
  ultimately show ?case using new by simp
qed

lemma swtn_axes_shapes:
  "shape_preserving E \<Longrightarrow> swtn_axes E i aws cs = Inr out \<Longrightarrow>
   \<forall>p\<in>set cs. shape (snd p) = s \<Longrightarrow> \<forall>p\<in>set out. shape (snd p) = s"
proof (induction aws arbitrary: cs)
  case Nil
  then show ?case by simp
next
  case (Cons aw aws)
  obtain ax w where aw: "aw = (ax, w)" by (cases aw)
  from Cons.prems(2) aw obtain new where
    new: "swtn_split E w i ax cs = Inr new" and rest: "swtn_axes E i aws new = Inr out"
    by (auto split: sum.splits)
  from Cons.IH[OF Cons.prems(1) rest swtn_split_shapes[OF Cons.prems(1) new Cons.prems(3)]]
  show ?case .
qed

lemma swtn_level_shapes:
  assumes "shape_preserving E" and "swtn_level E aws data i = Inr c"
  shows "\<forall>p\<in>set c. shape (snd p) = shape data"
proof -
  from assms(2) obtain cs where cs: "swtn_axes E i aws [('''', data)] = Inr cs"
    and c: "c = dict_of_pairs cs"
    by (auto simp: swtn_level_def split: sum.splits)
  have "subband_keys (length aws) (map fst cs)"
    using swtn_axes_keys[OF cs, of 0] subband_keys_0 by simp
  then have "distinct (map fst cs)" by (simp add: subband_keys_def)
  then have "c = cs" using c by (simp add: dict_of_pairs_distinct)
  then show ?thesis using swtn_axes_shapes[OF assms(1) cs, of "shape data"] by simp
qed

lemma swtn_loop_order:
  "swtn_loop E aws k data i n ret = Inr out \<Longrightarrow>
   \<exists>new. out = ret @ new \<and> length new = n \<and> computed_in_order E aws k data i new"
proof (induction n arbitrary: data i ret)
  case 0
  then show ?case by simp
next
  case (Suc n)
  from Suc.prems obtain c data' where
    c: "swtn_level E aws data i = Inr c" and
    d: "dict_get c (replicate k CHR ''a'') = Inr data'" and
    rest: "swtn_loop E aws k data' (i + 1) n (ret @ [c]) = Inr out"
    by (auto split: sum.splits)
  from Suc.IH[OF rest] obtain new where
    "out = (ret @ [c]) @ new" "length new = n" "computed_in_order E aws k data' (i + 1) new"
    by blast
  with c d have "out = ret @ (c # new) \<and> length (c # new) = Suc n \<and>
      computed_in_order E aws k data i (c # new)" by simp
  then show ?case by blast
qed

lemma dict_get_mem: "dict_get d k = Inr v \<Longrightarrow> (k, v) \<in> set d"
  by (auto simp: dict_get_def split: option.splits dest: map_of_SomeD)

lemma computed_in_order_keys:
  "computed_in_order E aws k data i cs \<Longrightarrow> c \<in> set cs \<Longrightarrow> subband_keys (length aws) (map fst c)"
proof (induction cs arbitrary: data i)
  case Nil
  then show ?case by simp
next
  case (Cons c' cs)
  then show ?case
    by (auto split: sum.splits dest: swtn_level_keys)
qed

lemma computed_in_order_shapes:
  "shape_preserving E \<Longrightarrow> computed_in_order E aws k data i cs \<Longrightarrow> c \<in> set cs \<Longrightarrow>
   p \<in> set c \<Longrightarrow> shape (snd p) = shape data"
proof (induction cs arbitrary: data i)
  case Nil
  then show ?case by simp
next
  case (Cons c' cs)
  from Cons.prems(2) obtain data' where
    c': "swtn_level E aws data i = Inr c'" and
    d: "dict_get c' (replicate k CHR ''a'') = Inr data'" and
    rest: "computed_in_order E aws k data' (i + 1) cs"
    by (auto split: sum.splits)
  have sh: "\<forall>q\<in>set c'. shape (snd q) = shape data"
    using swtn_level_shapes[OF Cons.prems(1) c'] .
  have "shape data' = shape data" using dict_get_mem[OF d] sh by fastforce
  with Cons.IH[OF Cons.prems(1) rest _ Cons.prems(4)] sh Cons.prems(3,4)
  show ?case by auto
qed

lemma computed_in_order_nth:
  "computed_in_order E aws k data i cs \<Longrightarrow> m < length cs \<Longrightarrow>
   \<exists>x. swtn_level E aws x (i + int m) = Inr (cs ! m)"
proof (induction cs arbitrary: data i m)
  case Nil
  then show ?case by simp
next
  case (Cons c cs)
  show ?case
  proof (cases m)
    case 0
    with Cons.prems show ?thesis by auto
  next
    case (Suc m')
    from Cons.prems(1) obtain data' where
      rest: "computed_in_order E aws k data' (i + 1) cs"
      by (auto split: sum.splits)
    from Cons.IH[OF rest, of m'] Cons.prems(2) Suc
    obtain x where "swtn_level E aws x (i + 1 + int m') = Inr (cs ! m')" by auto
    then have "swtn_level E aws x (i + int m) = Inr ((c # cs) ! m)"
      using Suc by (simp add: add.assoc)
    then show ?thesis by blast
  qed
qed

lemma wavelets_per_axis_length:
  "wavelets_per_axis sel axes = Inr ws \<Longrightarrow> length ws = length axes"
  by (auto simp: wavelets_per_axis_def split: wavelet_sel.splits if_splits)

lemma swtn_real_Inr:
  assumes "swtn_real E data wavelet level start_level axes = Inr ret"
  shows "\<exists>ws. wavelets_per_axis wavelet (normalize_axes (ndim data) (default_axes (ndim data) axes)) = Inr ws
       \<and> length ret = nat level
       \<and> computed_in_order E (zip (normalize_axes (ndim data) (default_axes (ndim data) axes)) ws)
            (length (default_axes (ndim data) axes)) data start_level (rev ret)"
proof -
  let ?axes = "normalize_axes (ndim data) (default_axes (ndim data) axes)"
  have len: "length ?axes = length (default_axes (ndim data) axes)"
    by (simp add: normalize_axes_def)
  from assms obtain ws out where
    ws: "wavelets_per_axis wavelet ?axes = Inr ws" and
    loop: "swtn_loop E (zip ?axes ws) (length ?axes) data start_level (nat level) [] = Inr out" and
    ret: "ret = rev out"
    by (auto simp: swtn_real_def Let_def split: if_splits sum.splits)
  from swtn_loop_order[OF loop] have "length out = nat level"
    "computed_in_order E (zip ?axes ws) (length ?axes) data start_level out" by auto
  with ws ret len show ?thesis by auto
qed

lemma add_1j_times_shape: "add_1j_times r i = Inr c \<Longrightarrow> shape c = shape r"
  by (auto simp: add_1j_times_def split: if_splits option.splits)

lemma combine_items_Inr:
  "combine_items ks rdict idict = Inr c \<Longrightarrow>
   map fst c = ks \<and> (\<forall>p\<in>set c. \<exists>r. (fst p, r) \<in> set rdict \<and> shape (snd p) = shape r)"
proof (induction ks arbitrary: c)
  case Nil
  then show ?case by simp
next
  case (Cons k ks)
  from Cons.prems obtain r i x rest where
    r: "dict_get rdict k = Inr r" and "dict_get idict k = Inr i" and
    x: "add_1j_times r i = Inr x" and
    rest: "combine_items ks rdict idict = Inr rest" and c: "c = (k, x) # rest"
    by (auto split: sum.splits)
  from Cons.IH[OF rest] dict_get_mem[OF r] add_1j_times_shape[OF x] c
  show ?case by auto
qed

lemma combine_levels_Inr:
  "combine_levels rs is = Inr ret \<Longrightarrow> c \<in> set ret \<Longrightarrow>
   \<exists>rdict\<in>set rs. \<exists>c'. c = dict_of_pairs c' \<and> map fst c' = map fst rdict \<and>
      (\<forall>p\<in>set c'. \<exists>r. (fst p, r) \<in> set rdict \<and> shape (snd p) = shape r)"
proof (induction rs "is" arbitrary: ret rule: combine_levels.induct)
  case (1 rdict rs idict "is")
  from "1.prems"(1) obtain c' cplx where
    c': "combine_items (map fst rdict) rdict idict = Inr c'" and
    rest: "combine_levels rs is = Inr cplx" and ret: "ret = dict_of_pairs c' # cplx"
    by (auto split: sum.splits)
  show ?case
  proof (cases "c = dict_of_pairs c'")
    case True
    with combine_items_Inr[OF c'] show ?thesis by auto
  next
    case False
    with "1.prems"(2) ret have "c \<in> set cplx" by simp
    from "1.IH"[OF c' rest this] show ?thesis by auto
  qed
qed auto

lemma combine_levels_length:
  "combine_levels rs is = Inr ret \<Longrightarrow> length ret = min (length rs) (length is)"
  by (induction rs "is" arbitrary: ret rule: combine_levels.induct) (auto split: sum.splits)

lemma real_imag_facts [simp]:
  "shape (real_part x) = shape x" "shape (imag_part x) = shape x"
  "ndim (real_part x) = ndim x" "ndim (imag_part x) = ndim x"
  by (simp_all add: real_part_def imag_part_def ndim_def)

lemma computed_level_order:
  assumes "computed_in_order E aws k data i (rev ret)"
  shows "level_order E aws k data i ret"
proof -
  have "\<exists>x. swtn_level E aws x (i + int (length ret - 1 - n)) = Inr (ret ! n)"
    if n: "n < length ret" for n
  proof -
    have "length ret - 1 - n < length (rev ret)" using n by simp
    from computed_in_order_nth[OF assms this]
    obtain x where "swtn_level E aws x (i + int (length ret - 1 - n)) = Inr (rev ret ! (length ret - 1 - n))"
      by blast
    moreover have "rev ret ! (length ret - 1 - n) = ret ! n"
      using n by (simp add: rev_nth Suc_diff_Suc)
    ultimately show ?thesis by auto
  qed
  with assms show ?thesis by (simp add: level_order_def)
qed

lemma combine_levels_nth:
  "combine_levels rs is = Inr ret \<Longrightarrow> n < length ret \<Longrightarrow>
   combined_level (rs ! n) (is ! n) = Inr (ret ! n)"
proof (induction rs "is" arbitrary: ret n rule: combine_levels.induct)
  case (1 rdict rs idict "is")
  from "1.prems"(1) obtain c' cplx where
    c': "combine_items (map fst rdict) rdict idict = Inr c'" and
    rest: "combine_levels rs is = Inr cplx" and ret: "ret = dict_of_pairs c' # cplx"
    by (auto split: sum.splits)
  show ?case
  proof (cases n)
    case 0
    with c' ret show ?thesis by (simp add: combined_level_def)
  next
    case (Suc m)
    with "1.prems"(2) ret have "m < length cplx" by simp
    from "1.IH"[OF c' rest this] Suc ret show ?thesis by simp
  qed
qed auto

lemma length_remdups_distinct: "(length xs = length (remdups xs)) = distinct xs"
  by (metis distinct_remdups length_remdups_eq remdups_id_iff_distinct)

lemma swtn_real_duplicate_axes:
  assumes "\<not> distinct (normalize_axes (ndim data) as)"
  shows "swtn_real E data wavelet level start_level (Some as) =
     Inl (if buf data = ObjectData then TypeError_not_numeric
          else if ndim data < 1 then ValueError_at_least_1D else ValueError_axes_unique)"
  using assms by (simp add: swtn_real_def default_axes_def length_remdups_distinct)

lemma real_buf_not_object: "is_complex_buf b \<Longrightarrow> real_buf b \<noteq> ObjectData \<and> b \<noteq> ObjectData"
  by (cases b) auto

lemma swtn_duplicate_axes:
  assumes "\<not> distinct (normalize_axes (ndim data) as)"
  shows "swtn E data wavelet level start_level (Some as) =
     Inl (if buf data = ObjectData then TypeError_not_numeric
          else if ndim data < 1 then ValueError_at_least_1D else ValueError_axes_unique)"
proof (cases "\<not> have_c99_complex E \<and> iscomplexobj data")
  case False
  then show ?thesis using swtn_real_duplicate_axes[OF assms] by (auto simp: swtn_def)
next
  case True
  then have c: "is_complex_buf (buf data)" by (simp add: iscomplexobj_def)
  have d: "\<not> distinct (normalize_axes (ndim (real_part data)) as)" using assms by simp
  have "buf (real_part data) \<noteq> ObjectData" "buf data \<noteq> ObjectData"
    using real_buf_not_object[OF c] by (simp_all add: real_part_def)
  with True swtn_real_duplicate_axes[OF d, of E wavelet level start_level]
  show ?thesis by (simp add: swtn_def)
qed

lemma iswtn_duplicate_axes:
  assumes "max_key_length c0 = Inr k" and "dict_get c0 (replicate k CHR ''a'') = Inr out"
    and "\<not> distinct (normalize_axes (ndim out) as)"
  shows "iswtn E (c0 # cs) wavelet (Some as) = (Inl ValueError_axes_unique, c0 # cs)"
  using assms by (simp add: iswtn_def default_axes_def length_remdups_distinct)

lemma swt2_duplicate_axes:
  assumes "\<not> distinct (normalize_axes (ndim data) as)"
  shows "\<exists>e. swt2 E data wavelet level start_level as = Inl e \<and>
     e \<in> {ValueError_expected_2_axes, ValueError_axes_unique, ValueError_fewer_dims,
          TypeError_not_numeric, ValueError_at_least_1D}"
  using swtn_duplicate_axes[OF assms, of E wavelet level start_level]
  by (simp add: swt2_def)



lemma add_1j_times_total: "shape r = shape i \<Longrightarrow> \<exists>c. add_1j_times r i = Inr c"
  by (auto simp: add_1j_times_def split: option.splits)






lemma list_get_err: "list_get xs i = Inl e \<Longrightarrow> e = IndexError"
  by (auto simp: list_get_def Let_def split: if_splits)

lemma list_set_err: "list_set xs i v = Inl e \<Longrightarrow> e = IndexError"
  by (auto simp: list_set_def Let_def split: if_splits)

lemma set_slices_err: "set_slices step fsa S = Inl e \<Longrightarrow> e = IndexError"
  by (induction step fsa S rule: set_slices.induct)
     (auto split: sum.splits dest: list_set_err)

lemma choose_slices_err: "choose_slices oa S = Inl e \<Longrightarrow> e = IndexError"
  by (induction oa S rule: choose_slices.induct)
     (auto split: sum.splits if_splits dest: list_set_err list_get_err)

lemma getitem_err: "getitem x sl = Inl e \<Longrightarrow> e = IndexError"
  by (auto simp: getitem_def Let_def split: if_splits)

lemma slice_details_err: "slice_details sl d = Inl e \<Longrightarrow> e = IndexError"
  by (induction sl d rule: slice_details.induct) (auto split: sum.splits dest: getitem_err)

lemma roll1_err: "roll1 x ax = Inl e \<Longrightarrow> e = AxisError"
  by (auto simp: roll1_def Let_def split: if_splits)

lemma roll_odds_err: "roll_odds oa x = Inl e \<Longrightarrow> e = AxisError"
  by (induction oa x rule: roll_odds.induct) (auto split: sum.splits if_splits dest: roll1_err)

lemma buf_add_at_err: "buf_add_at ps b v = Inl e \<Longrightarrow> e = TypeError_cast"
  by (cases "(ps, b, v)" rule: buf_add_at.cases) auto

lemma add_at_err:
  "add_at x sl v = Inl e \<Longrightarrow> e = IndexError \<or> e = ValueError_broadcast \<or> e = TypeError_cast"
  by (auto simp: add_at_def Let_def split: if_splits sum.splits dest: buf_add_at_err)

lemma set_zero_err: "set_zero x sl = Inl e \<Longrightarrow> e = IndexError"
  by (auto simp: set_zero_def split: if_splits)

lemma div_at_err: "div_at x sl n = Inl e \<Longrightarrow> e = IndexError"
  by (auto simp: div_at_def split: if_splits)

lemma iswtn_odds_err:
  "iswtn_odds E ws axes akey details approx ol S output nt = Inl e \<Longrightarrow> \<not> argument_error e"
proof (induction E ws axes akey details approx ol S "output" nt rule: iswtn_odds.induct)
  case 1
  then show ?case by simp
next
  case (2 E wavelets axes akey details approx odds rest S outp ntransforms)
  show ?case
  proof (cases "choose_slices (zip odds axes) S")
    case (Inl a)
    with "2.prems" choose_slices_err[OF Inl] show ?thesis by (simp add: argument_error_def)
  next
    case S': (Inr S')
    show ?thesis
    proof (cases "slice_details (odd_even_slices S') details")
      case (Inl a)
      with "2.prems" S' slice_details_err[OF Inl] show ?thesis by (simp add: argument_error_def)
    next
      case ds: (Inr ds)
      show ?thesis
      proof (cases "getitem approx (odd_even_slices S')")
        case (Inl a)
        with "2.prems" S' ds getitem_err[OF Inl] show ?thesis by (simp add: argument_error_def)
      next
        case asl: (Inr asl)
        show ?thesis
        proof (cases "idwtn E (dict_set ds akey asl) wavelets axes")
          case (Inl a)
          with "2.prems" S' ds asl show ?thesis by (auto simp add: argument_error_def)
        next
          case x: (Inr x)
          show ?thesis
          proof (cases "roll_odds (zip odds axes) x")
            case (Inl a)
            with "2.prems" S' ds asl x roll_odds_err[OF Inl] show ?thesis
              by (simp add: argument_error_def)
          next
            case x': (Inr x')
            show ?thesis
            proof (cases "add_at outp (indices S') x'")
              case (Inl a)
              with "2.prems" S' ds asl x x' add_at_err[OF Inl] show ?thesis
                by (auto simp add: argument_error_def)
            next
              case out: (Inr out)
              from "2.IH"[OF S' ds asl x x' out] "2.prems" S' ds asl x x' out
              show ?thesis by simp
            qed
          qed
        qed
      qed
    qed
  qed
qed

lemma iswtn_firsts_err:
  "iswtn_firsts E ws axes akey details dshape step fl S output = Inl e \<Longrightarrow> \<not> argument_error e"
proof (induction E ws axes akey details dshape step fl S "output" rule: iswtn_firsts.induct)
  case 1
  then show ?case by simp
next
  case (2 E wavelets axes akey details dshape step_size firsts rest S outp)
  show ?case
  proof (cases "set_slices step_size (zip firsts (zip dshape axes)) S")
    case (Inl a)
    with "2.prems" set_slices_err[OF Inl] show ?thesis by (simp add: argument_error_def)
  next
    case S1: (Inr S1)
    show ?thesis
    proof (cases "set_zero outp (indices S1)")
      case (Inl a)
      with "2.prems" S1 set_zero_err[OF Inl] show ?thesis by (simp add: argument_error_def)
    next
      case o0: (Inr output0)
      show ?thesis
      proof (cases "iswtn_odds E wavelets axes akey details outp
             (List.product_lists (replicate (length akey) [0, 1])) S1 output0 0")
        case (Inl a)
        with "2.prems" S1 o0 iswtn_odds_err[OF Inl] show ?thesis by simp
      next
        case r: (Inr r)
        obtain S2 output1 nt where r': "r = (S2, output1, nt)" by (cases r)
        show ?thesis
        proof (cases "div_at output1 (indices S2) nt")
          case (Inl a)
          with "2.prems" S1 o0 r r' div_at_err[OF Inl] show ?thesis
            by (simp add: argument_error_def)
        next
          case o2: (Inr output2)
          from "2.IH"[OF S1 o0 r[unfolded r'] refl refl o2] "2.prems" S1 o0 r r' o2
          show ?thesis by simp
        qed
      qed
    qed
  qed
qed

lemma dict_pop_err: "dict_pop d k = Inl e \<Longrightarrow> e = KeyError"
  by (auto simp: dict_pop_def split: option.splits)

lemma dict_get_err: "dict_get d k = Inl e \<Longrightarrow> e = KeyError"
  by (auto simp: dict_get_def split: option.splits)

lemma iswtn_levels_err:
  "fst (iswtn_levels E ws axes akey nl j n S outp coeffs) = Inl e \<Longrightarrow> \<not> argument_error e"
proof (induction n arbitrary: j S outp coeffs)
  case 0
  then show ?case by simp
next
  case (Suc n)
  show ?case
  proof (cases "dict_pop (coeffs ! j) akey")
    case (Inl a)
    with Suc.prems dict_pop_err[OF Inl] show ?thesis by (simp add: argument_error_def)
  next
    case p: (Inr p)
    obtain a details where p': "p = (a, details)" by (cases p)
    show ?thesis
    proof (cases "map (\<lambda>kv. shape (snd kv)) details")
      case Nil
      with Suc.prems p p' show ?thesis by (simp add: argument_error_def)
    next
      case sh: (Cons dshape others)
      show ?thesis
      proof (cases "length (remdups (dshape # others)) \<noteq> 1")
        case True
        with Suc.prems p p' sh show ?thesis by (simp add: argument_error_def)
      next
        case False
        show ?thesis
        proof (cases "iswtn_firsts E ws axes akey details dshape (2 ^ (nl - j - 1))
                         (List.product_lists (replicate (length akey) [0..<2 ^ (nl - j - 1)]))
                         S outp")
          case (Inl a)
          with Suc.prems p p' sh False iswtn_firsts_err[OF Inl] show ?thesis by simp
        next
          case r: (Inr r)
          obtain S' output' where r': "r = (S', output')" by (cases r)
          from Suc.prems p p' sh False r r'
          have "fst (iswtn_levels E ws axes akey nl (j + 1) n S' output'
                  ((coeffs[j := details])[j := dict_set details akey a])) = Inl e"
            by (simp add: Let_def)
          from Suc.IH[OF this] show ?thesis .
        qed
      qed
    qed
  qed
qed

lemma iswtn_validation:
  assumes "iswtn E coeffs wavelet axes = (Inl e, coeffs')" and "argument_error e"
  shows "coeffs' = coeffs \<and> iswtn E' coeffs wavelet axes = (Inl e, coeffs)"
proof (cases coeffs)
  case Nil
  with assms show ?thesis by (simp add: iswtn_def argument_error_def)
next
  case (Cons c0 cs)
  show ?thesis
  proof (cases "max_key_length c0")
    case (Inl a)
    then have "a = ValueError_empty_max"
      by (auto simp: max_key_length_def split: list.splits)
    with Inl assms Cons show ?thesis by (simp add: iswtn_def argument_error_def)
  next
    case k: (Inr k)
    show ?thesis
    proof (cases "dict_get c0 (replicate k CHR ''a'')")
      case (Inl a)
      with assms Cons k dict_get_err[OF Inl] show ?thesis
        by (simp add: iswtn_def argument_error_def)
    next
      case out: (Inr out)
      let ?axes = "normalize_axes (ndim out) (default_axes (ndim out) axes)"
      show ?thesis
      proof (cases "length ?axes \<noteq> length (remdups ?axes) \<or> k \<noteq> length ?axes")
        case True
        with assms Cons k out show ?thesis by (auto simp: iswtn_def Let_def split: if_splits)
      next
        case False
        show ?thesis
        proof (cases "wavelets_per_axis wavelet ?axes")
          case (Inl a)
          with assms Cons k out False show ?thesis by (auto simp: iswtn_def Let_def)
        next
          case (Inr ws)
          with assms(1) Cons k out False
          have "fst (iswtn_levels E ws ?axes (replicate k CHR ''a'') (length coeffs) 0 (length coeffs)
                  \<lparr>indices = replicate (ndim out) SliceAll,
                   even_indices = replicate (ndim out) SliceAll,
                   odd_indices = replicate (ndim out) SliceAll,
                   odd_even_slices = replicate (ndim out) SliceAll\<rparr> out coeffs) = Inl e"
            by (simp add: iswtn_def Let_def)
          from iswtn_levels_err[OF this] assms(2) show ?thesis by simp
        qed
      qed
    qed
  qed
qed

lemma swtn_split_err: "swtn_split E w i ax cs = Inl e \<Longrightarrow> \<not> argument_error e"
  by (induction cs) (auto simp: argument_error_def split: sum.splits list.splits prod.splits)

lemma swtn_axes_err: "swtn_axes E i aws cs = Inl e \<Longrightarrow> \<not> argument_error e"
proof (induction aws arbitrary: cs)
  case Nil
  then show ?case by simp
next
  case (Cons aw aws)
  obtain ax w where aw: "aw = (ax, w)" by (cases aw)
  show ?case
  proof (cases "swtn_split E w i ax cs")
    case (Inl a)
    with Cons.prems aw swtn_split_err[OF Inl] show ?thesis by simp
  next
    case (Inr new)
    with Cons.prems aw have "swtn_axes E i aws new = Inl e" by simp
    from Cons.IH[OF this] show ?thesis .
  qed
qed

lemma swtn_loop_err: "swtn_loop E aws k data i n ret = Inl e \<Longrightarrow> \<not> argument_error e"
proof (induction n arbitrary: data i ret)
  case 0
  then show ?case by simp
next
  case (Suc n)
  show ?case
  proof (cases "swtn_axes E i aws [('''', data)]")
    case (Inl a)
    with Suc.prems swtn_axes_err[OF Inl] show ?thesis by (simp add: swtn_level_def)
  next
    case cs: (Inr cs)
    show ?thesis
    proof (cases "dict_get (dict_of_pairs cs) (replicate k CHR ''a'')")
      case (Inl a)
      with Suc.prems cs dict_get_err[OF Inl] show ?thesis
        by (simp add: swtn_level_def argument_error_def)
    next
      case (Inr data')
      with Suc.prems cs
      have "swtn_loop E aws k data' (i + 1) n (ret @ [dict_of_pairs cs]) = Inl e"
        by (simp add: swtn_level_def)
      from Suc.IH[OF this] show ?thesis .
    qed
  qed
qed

lemma swtn_real_validation:
  assumes "swtn_real E x wavelet level start_level axes = Inl e" and "argument_error e"
    and "(buf x' = ObjectData) = (buf x = ObjectData)" and "ndim x' = ndim x"
  shows "swtn_real E' x' wavelet level start_level axes = Inl e"
proof -
  let ?axes = "normalize_axes (ndim x) (default_axes (ndim x) axes)"
  show ?thesis
  proof (cases "buf x = ObjectData \<or> ndim x < 1 \<or> length ?axes \<noteq> length (remdups ?axes)")
    case True
    with assms show ?thesis by (auto simp: swtn_real_def Let_def split: if_splits)
  next
    case False
    show ?thesis
    proof (cases "wavelets_per_axis wavelet ?axes")
      case (Inl a)
      with assms False show ?thesis by (auto simp: swtn_real_def Let_def)
    next
      case (Inr ws)
      with assms(1) False
      have "swtn_loop E (zip ?axes ws) (length ?axes) x start_level (nat level) [] = Inl e"
        by (auto simp: swtn_real_def Let_def split: sum.splits)
      from swtn_loop_err[OF this] assms(2) show ?thesis by simp
    qed
  qed
qed

lemma combine_items_err: "combine_items ks r i = Inl e \<Longrightarrow> \<not> argument_error e"
  by (induction ks) (auto simp: argument_error_def add_1j_times_def
       split: sum.splits if_splits option.splits dest: dict_get_err)

lemma combine_levels_err: "combine_levels rs is = Inl e \<Longrightarrow> \<not> argument_error e"
  by (induction rs "is" rule: combine_levels.induct)
     (auto split: sum.splits dest: combine_items_err)

lemma swtn_validation:
  assumes "swtn E data wavelet level start_level axes = Inl e" and "argument_error e"
    and "have_c99_complex E' = have_c99_complex E"
  shows "swtn E' data wavelet level start_level axes = Inl e"
proof (cases "\<not> have_c99_complex E \<and> iscomplexobj data")
  case False
  with assms swtn_real_validation[of E data wavelet level start_level axes e data E']
  show ?thesis by (auto simp: swtn_def)
next
  case True
  then have c: "is_complex_buf (buf data)" by (simp add: iscomplexobj_def)
  have obj: "(buf (imag_part data) = ObjectData) = (buf (real_part data) = ObjectData)"
    using c by (cases "buf data") (simp_all add: imag_part_def real_part_def)
  show ?thesis
  proof (cases "swtn_real E (real_part data) wavelet level start_level axes")
    case (Inl a)
    with assms True have "a = e" by (simp add: swtn_def)
    with Inl assms(2) swtn_real_validation[of E "real_part data" wavelet level start_level axes e
        "real_part data" E']
    have "swtn_real E' (real_part data) wavelet level start_level axes = Inl e" by simp
    with True assms(3) show ?thesis by (simp add: swtn_def)
  next
    case rs: (Inr rs)
    show ?thesis
    proof (cases "swtn_real E (imag_part data) wavelet level start_level axes")
      case (Inl a)
      with assms True rs have ae: "a = e" by (simp add: swtn_def)
      from swtn_real_validation[OF Inl[unfolded ae] assms(2), of "real_part data" E] obj
      have "swtn_real E (real_part data) wavelet level start_level axes = Inl e" by simp
      with rs show ?thesis by simp
    next
      case (Inr "is")
      with assms(1) True rs have "combine_levels rs is = Inl e" by (simp add: swtn_def)
      from combine_levels_err[OF this] assms(2) show ?thesis by simp
    qed
  qed
qed

lemma not_complex_parts [simp]: "\<not> iscomplexobj (real_part x)" "\<not> iscomplexobj (imag_part x)"
  by (cases "buf x"; simp add: iscomplexobj_def real_part_def imag_part_def)+

lemma dict_pop_Inr:
  "dict_pop d k = Inr (a, rest) \<Longrightarrow> dict_get d k = Inr a \<and> dict_get rest k = Inl KeyError"
proof -
  have "map_of (filter (\<lambda>kv. fst kv \<noteq> k) d) k = None"
    by (induction d) auto
  moreover assume "dict_pop d k = Inr (a, rest)"
  ultimately show ?thesis
    by (auto simp: dict_pop_def dict_get_def split: option.splits)
qed

lemma iswtn_levels_mismatch:
  assumes "dict_pop (coeffs ! j) akey = Inr (a, details)"
    and "1 < length (remdups (map (\<lambda>kv. shape (snd kv)) details))"
  shows "iswtn_levels E wavelets axes akey num_levels j (Suc n) S outp coeffs =
           (Inl RuntimeError_shape_mismatch, coeffs[j := details])"
proof (cases "map (\<lambda>kv. shape (snd kv)) details")
  case Nil
  with assms(2) show ?thesis by simp
next
  case (Cons dshape others)
  with assms show ?thesis by (simp add: Let_def)
qed

lemma iswt_levels_details_only:
  "map snd cs = map snd cs' \<Longrightarrow> iswt_levels E w cs outp = iswt_levels E w cs' outp"
proof (induction cs arbitrary: cs' outp)
  case Nil
  then show ?case by simp
next
  case (Cons c cs)
  then obtain c' cs'' where cs': "cs' = c' # cs''" and s: "snd c = snd c'"
    and m: "map snd cs = map snd cs''" by (cases cs') auto
  have l: "length cs = length cs''" using m by (metis length_map)
  obtain cA cD where c: "c = (cA, cD)" by (cases c)
  obtain cA' where c': "c' = (cA', cD)" using s c by (cases c') simp
  show ?case using Cons.IH[OF m] l by (simp add: cs' c c' Let_def split: sum.splits)
qed

lemma haar_levels_shapes:
  "\<forall>p\<in>set acc. shape (fst p) = shp \<and> shape (snd p) = shp \<Longrightarrow>
   \<forall>p\<in>set (haar_levels shp k xs i n acc). shape (fst p) = shp \<and> shape (snd p) = shp"
proof (induction n arbitrary: xs i acc)
  case 0
  then show ?case by simp
next
  case (Suc n)
  show ?case
    unfolding haar_levels.simps Let_def
    by (rule Suc.IH) (use Suc.prems in simp)
qed

lemma shape_preserving_haar: "shape_preserving haar_env"
  unfolding shape_preserving_def
proof (intro allI impI)
  fix x w l s ax res p
  assume r: "swt_axis haar_env x w l s ax = Inr res" and p: "p \<in> set res"
  from r obtain xs k i n where "res = haar_levels (shape x) k xs i n []"
    by (auto simp: haar_env_def haar_swt_axis_def Let_def split: buffer.splits if_splits)
  with haar_levels_shapes[of "[]" "shape x" k xs i n] p
  show "shape (fst p) = shape x \<and> shape (snd p) = shape x" by simp
qed

section \<open>The claims\<close>

text \<open>
  Claim C1 (round trip). The claim: for every array whose extents along the transformed
  axes are multiples of \<open>2 ^ level\<close>, every wavelet and every duplicate-free axis
  subset, \<^verbatim>\<open>iswtn\<close> applied to the result of \<^verbatim>\<open>swtn\<close> gives the array back.
  The code pairs the \<open>i\<close>-th transformed axis with the \<open>i\<close>-th extent of the detail
  arrays (\<^verbatim>\<open>zip(firsts, dshape, axes)\<close>, line 500), not with the extent of that axis. For
  the 2 x 4 array below and the single axis 1 the slices of axis 1 therefore stop at 2, the
  extent of axis 0: columns 2 and 3 of the output keep the approximation coefficients and
  the result is not the input. The arithmetic is exact here, so no rounding is involved.
\<close>

theorem iswtn_last_axis_round_trip_fails:
  "swtn haar_env mat24 (Single ''db1'') 1 0 (Some [1]) = Inr mat24_coeffs \<and>
   fst (iswtn haar_env mat24_coeffs (Single ''db1'') (Some [1])) =
     Inr (NDArray [2, 4] (FloatData [2, 2, 7 / 2, 5 / 2, 6, 6, 15 / 2, 13 / 2])) \<and>
   fst (iswtn haar_env mat24_coeffs (Single ''db1'') (Some [1])) \<noteq> Inr mat24"
  by code_simp

text \<open>
  Claim C2 (complex input of \<^verbatim>\<open>swt\<close>). The claim: \<^verbatim>\<open>swt\<close> of a complex array equals the
  combination of \<^verbatim>\<open>swt\<close> of its real and of its imaginary part with the same wavelet,
  level, start level and axis. Without C99 complex support the code calls itself on the two
  parts without passing the axis on (lines 61-62), so whatever axis the caller names, the
  parts are transformed along the last one.
\<close>

theorem swt_complex_ignores_axis:
  assumes "\<not> have_c99_complex E" and "iscomplexobj data"
  shows "swt E data w level start_level axis = swt_of_parts E data w level start_level (- 1)"
  using assms by (auto simp: swt_def swt_of_parts_def split: sum.splits)

text \<open>
  For a 2 x 2 complex array and axis 0 the result is the one for the last axis, and it
  differs from the combination the claim describes.
\<close>

theorem swt_complex_ignores_axis_witness:
  "\<not> have_c99_complex haar_env \<and> iscomplexobj z22 \<and>
   swt haar_env z22 ''db1'' (Some 1) 0 0 = swt_of_parts haar_env z22 ''db1'' (Some 1) 0 (- 1) \<and>
   swt haar_env z22 ''db1'' (Some 1) 0 0 \<noteq> swt_of_parts haar_env z22 ''db1'' (Some 1) 0 0"
proof -
  have a: "\<not> have_c99_complex haar_env" by (simp add: haar_env_def)
  have b: "iscomplexobj z22" by (simp add: iscomplexobj_def z22_def)
  have c: "swt_of_parts haar_env z22 ''db1'' (Some 1) 0 (- 1) \<noteq> swt_of_parts haar_env z22 ''db1'' (Some 1) 0 0"
    by code_simp
  from a b c swt_complex_ignores_axis[OF a b, of "''db1''" "Some 1" 0 0] show ?thesis by simp
qed

text \<open>
  Claim C3 (validation before any work), as amended. When \<^verbatim>\<open>swtn\<close> or \<^verbatim>\<open>iswtn\<close>
  raises one of the errors of its argument checks (object array, fewer than one dimension,
  repeated axis, wrong number of axes, wrong number of wavelets), no transform primitive
  has been called and the coefficient list is as the caller passed it: the call ends in the
  same way for every choice of the primitives, also for primitives that raise as soon as
  they are called. The statement does not extend to an axis out of range or to a mismatch
  of sub-band shapes.
\<close>

theorem validation_before_transform:
  "(swtn E data wavelet level start_level axes = Inl e \<longrightarrow> argument_error e \<longrightarrow>
      have_c99_complex E' = have_c99_complex E \<longrightarrow>
      swtn E' data wavelet level start_level axes = Inl e) \<and>
   (iswtn E coeffs wavelet axes' = (Inl e', coeffs') \<longrightarrow> argument_error e' \<longrightarrow>
      coeffs' = coeffs \<and> iswtn E' coeffs wavelet axes' = (Inl e', coeffs))"
  using swtn_validation iswtn_validation by blast

text \<open>
  The claim as stated covers every validation error. Two of them are found only after work
  has been done or the coefficient list has changed.
  The shape mismatch: for two levels of 4 x 4 sub-bands, the second of which holds one
  4 x 2 array, it is reported only after the first level has been reconstructed (with
  primitives that raise, the call ends with the primitive's error instead), and the second
  dictionary has lost its all-approximation entry.
  The axis out of range: \<^verbatim>\<open>iswtn\<close> on one-dimensional coefficients with axis 1 ends
  with the index error of line 501, after line 489 has removed the approximation entry of
  the first dictionary; \<^verbatim>\<open>swtn\<close> on a two-dimensional array with axes 0 and 2 hands
  axis 0 to the forward primitive before the primitive rejects axis 2.
\<close>

theorem late_checks_counterexample:
  "fst (iswtn haar_env [level_uniform, level_mismatched] (Single ''db1'') None) =
     Inl RuntimeError_shape_mismatch \<and>
   fst (iswtn failing_env [level_uniform, level_mismatched] (Single ''db1'') None) =
     Inl (External ''called'') \<and>
   dict_get level_mismatched ''aa'' = Inr (ones [4, 4]) \<and>
   dict_get (snd (iswtn haar_env [level_uniform, level_mismatched] (Single ''db1'') None) ! 1) ''aa'' =
     Inl KeyError \<and>
   dict_get (hd sig4_coeffs) ''a'' = Inr (NDArray [4] (FloatData [5 / 2, 5 / 2, 5 / 2, 5 / 2])) \<and>
   iswtn haar_env sig4_coeffs (Single ''db1'') (Some [1]) =
     (Inl IndexError, [[(''d'', NDArray [4] (FloatData [- 1, 0, 1, 0]))], sig4_coeffs ! 1]) \<and>
   swtn haar_env mat24 (Single ''db1'') 1 0 (Some [0, 2]) = Inl (External ''axis'') \<and>
   swtn failing_env mat24 (Single ''db1'') 1 0 (Some [0, 2]) = Inl (External ''called'')"
  by code_simp

text \<open>
  An instance of the amended statement, with primitives that raise in place of those that
  work.
\<close>

theorem validation_before_transform_witness:
  "swtn haar_env mat24 (Single ''db1'') 1 0 (Some [1, - 1]) = Inl ValueError_axes_unique \<and>
   argument_error ValueError_axes_unique \<and>
   have_c99_complex failing_env = have_c99_complex haar_env \<and>
   swtn failing_env mat24 (Single ''db1'') 1 0 (Some [1, - 1]) = Inl ValueError_axes_unique \<and>
   iswtn haar_env mat24_coeffs (Single ''db1'') (Some [0, 1]) = (Inl ValueError_num_axes, mat24_coeffs) \<and>
   argument_error ValueError_num_axes \<and>
   iswtn failing_env mat24_coeffs (Single ''db1'') (Some [0, 1]) = (Inl ValueError_num_axes, mat24_coeffs)"
proof -
  have a: "swtn haar_env mat24 (Single ''db1'') 1 0 (Some [1, - 1]) = Inl ValueError_axes_unique"
    by code_simp
  have b: "argument_error ValueError_axes_unique" by (simp add: argument_error_def)
  have c: "have_c99_complex failing_env = have_c99_complex haar_env"
    by (simp add: failing_env_def haar_env_def)
  have d: "iswtn haar_env mat24_coeffs (Single ''db1'') (Some [0, 1]) =
      (Inl ValueError_num_axes, mat24_coeffs)" by code_simp
  have e: "argument_error ValueError_num_axes" by (simp add: argument_error_def)
  from validation_before_transform[of haar_env mat24 "Single ''db1''" 1 0 "Some [1, - 1]"
      ValueError_axes_unique failing_env mat24_coeffs "Some [0, 1]" ValueError_num_axes mat24_coeffs]
    a b c d e
  show ?thesis by simp
qed

text \<open>
  Claim C4 (the removed approximation key comes back). The claim: on every return path of
  \<^verbatim>\<open>iswtn\<close>, error paths included, every level's dictionary holds the same entries
  after the call as before. The code puts the entry back at the end of each iteration
  (line 532, announced by the comment of line 489), but line 495 raises between the two.
  When the detail arrays of the first level differ in shape and the arguments are otherwise
  accepted, the call ends with the shape error and the first dictionary has lost its
  all-approximation entry.
\<close>

theorem iswtn_mismatch_leaves_key_popped:
  assumes mk: "max_key_length c0 = Inr k"
    and pop: "dict_pop c0 (replicate k CHR ''a'') = Inr (a, details)"
    and ax: "distinct (normalize_axes (ndim a) (default_axes (ndim a) axes))"
    and len: "length (default_axes (ndim a) axes) = k"
    and ws: "wavelets_per_axis wavelet (normalize_axes (ndim a) (default_axes (ndim a) axes)) = Inr ws"
    and mis: "1 < length (remdups (map (\<lambda>kv. shape (snd kv)) details))"
  shows "iswtn E (c0 # cs) wavelet axes = (Inl RuntimeError_shape_mismatch, details # cs) \<and>
         dict_get c0 (replicate k CHR ''a'') = Inr a \<and>
         dict_get details (replicate k CHR ''a'') = Inl KeyError"
proof -
  have g: "dict_get c0 (replicate k CHR ''a'') = Inr a"
    "dict_get details (replicate k CHR ''a'') = Inl KeyError"
    using dict_pop_Inr[OF pop] by simp_all
  have p0: "dict_pop ((c0 # cs) ! 0) (replicate k CHR ''a'') = Inr (a, details)"
    using pop by simp
  have l: "length (normalize_axes (ndim a) (default_axes (ndim a) axes)) = k"
    using len by (simp add: normalize_axes_def)
  have "iswtn E (c0 # cs) wavelet axes =
      iswtn_levels E ws (normalize_axes (ndim a) (default_axes (ndim a) axes))
        (replicate k CHR ''a'') (Suc (length cs)) 0 (Suc (length cs))
        \<lparr>indices = replicate (ndim a) SliceAll,
         even_indices = replicate (ndim a) SliceAll,
         odd_indices = replicate (ndim a) SliceAll,
         odd_even_slices = replicate (ndim a) SliceAll\<rparr> a (c0 # cs)"
    using mk g ax l ws
    by (simp add: iswtn_def Let_def length_remdups_distinct del: iswtn_levels.simps)
  also have "\<dots> = (Inl RuntimeError_shape_mismatch, (c0 # cs)[0 := details])"
    by (rule iswtn_levels_mismatch[OF p0 mis])
  finally show ?thesis using g by simp
qed

theorem iswtn_mismatch_leaves_key_popped_witness:
  "iswtn haar_env [level_mismatched] (Single ''db1'') None =
     (Inl RuntimeError_shape_mismatch,
      [[(''ad'', ones [4, 4]), (''da'', ones [4, 4]), (''dd'', ones [4, 2])]]) \<and>
   dict_get level_mismatched ''aa'' = Inr (ones [4, 4]) \<and>
   dict_get [(''ad'', ones [4, 4]), (''da'', ones [4, 4]), (''dd'', ones [4, 2])] ''aa'' = Inl KeyError"
proof -
  have mk: "max_key_length level_mismatched = Inr 2" by code_simp
  have pop: "dict_pop level_mismatched (replicate 2 CHR ''a'') =
      Inr (ones [4, 4], [(''ad'', ones [4, 4]), (''da'', ones [4, 4]), (''dd'', ones [4, 2])])"
    by code_simp
  have ax: "distinct (normalize_axes (ndim (ones [4, 4])) (default_axes (ndim (ones [4, 4])) None))"
    by code_simp
  have len: "length (default_axes (ndim (ones [4, 4])) None) = 2" by code_simp
  have ws: "wavelets_per_axis (Single ''db1'')
      (normalize_axes (ndim (ones [4, 4])) (default_axes (ndim (ones [4, 4])) None)) = Inr [''db1'', ''db1'']"
    by code_simp
  have mis: "1 < length (remdups (map (\<lambda>kv. shape (snd kv))
      [(''ad'', ones [4, 4]), (''da'', ones [4, 4]), (''dd'', ones [4, 2])]))"
    by code_simp
  have r: "replicate 2 CHR ''a'' = ''aa''" by code_simp
  from iswtn_mismatch_leaves_key_popped[OF mk pop ax len ws mis, of haar_env "[]"] r
  show ?thesis by simp
qed

text \<open>
  Claim C5 (the shape check), as amended. When the loop of \<^verbatim>\<open>iswtn\<close> reaches a level,
  it first removes the all-approximation entry and then compares the shapes of the entries
  that are left: if two of these detail arrays differ in shape, the call ends with the
  shape-mismatch error before any transform of that level, whatever the primitives are and
  whatever the removed approximation array looks like.
\<close>

theorem shape_check_covers_details_only:
  assumes "dict_pop (coeffs ! j) akey = Inr (a, details)"
    and "1 < length (remdups (map (\<lambda>kv. shape (snd kv)) details))"
  shows "fst (iswtn_levels E wavelets axes akey num_levels j (Suc n) S outp coeffs) =
           Inl RuntimeError_shape_mismatch"
  using iswtn_levels_mismatch[OF assms] by simp

text \<open>
  The claim as stated includes the all-approximation sub-band in the check. It takes no
  part: with an approximation array of three elements in the finer level, next to a detail
  array of four, the call returns the reconstructed signal.
\<close>

theorem unchecked_approximation_counterexample:
  "fst (iswtn haar_env
     [[(''a'', NDArray [4] (FloatData [5 / 2, 5 / 2, 5 / 2, 5 / 2])),
       (''d'', NDArray [4] (FloatData [- 1, 0, 1, 0]))],
      [(''a'', NDArray [3] (FloatData [0, 0, 0])),
       (''d'', NDArray [4] (FloatData [- (1 / 2), - (1 / 2), - (1 / 2), 3 / 2]))]]
     (Single ''db1'') None) = Inr sig4"
  by code_simp

text \<open>
  An instance of the amended statement: the second of two levels, with the slices, the
  output and the coefficient list as the first level leaves them (first conjunct).
\<close>

theorem shape_check_covers_details_only_witness:
  "iswtn_firsts haar_env [''db1'', ''db1''] [0, 1] ''aa''
     [(''ad'', ones [4, 4]), (''da'', ones [4, 4]), (''dd'', ones [4, 4])] [4, 4] 2
     (List.product_lists (replicate 2 [0..<2]))
     \<lparr>indices = [SliceAll, SliceAll], even_indices = [SliceAll, SliceAll],
      odd_indices = [SliceAll, SliceAll], odd_even_slices = [SliceAll, SliceAll]\<rparr>
     (ones [4, 4]) =
     Inr (\<lparr>indices = [Slice 1 4 2, Slice 1 4 2], even_indices = [Slice 1 4 4, Slice 1 4 4],
           odd_indices = [Slice 3 4 4, Slice 3 4 4], odd_even_slices = [Slice 3 4 4, Slice 3 4 4]\<rparr>,
          ones [4, 4]) \<and>
   dict_pop ([[(''ad'', ones [4, 4]), (''da'', ones [4, 4]), (''dd'', ones [4, 4]), (''aa'', ones [4, 4])],
              level_mismatched] ! 1) ''aa'' =
     Inr (ones [4, 4], [(''ad'', ones [4, 4]), (''da'', ones [4, 4]), (''dd'', ones [4, 2])]) \<and>
   1 < length (remdups (map (\<lambda>kv. shape (snd kv))
         [(''ad'', ones [4, 4]), (''da'', ones [4, 4]), (''dd'', ones [4, 2])])) \<and>
   fst (iswtn_levels haar_env [''db1'', ''db1''] [0, 1] ''aa'' 2 1 (Suc 0)
          \<lparr>indices = [Slice 1 4 2, Slice 1 4 2], even_indices = [Slice 1 4 4, Slice 1 4 4],
           odd_indices = [Slice 3 4 4, Slice 3 4 4], odd_even_slices = [Slice 3 4 4, Slice 3 4 4]\<rparr>
          (ones [4, 4])
          [[(''ad'', ones [4, 4]), (''da'', ones [4, 4]), (''dd'', ones [4, 4]), (''aa'', ones [4, 4])],
           level_mismatched]) = Inl RuntimeError_shape_mismatch"
proof -
  have s: "iswtn_firsts haar_env [''db1'', ''db1''] [0, 1] ''aa''
     [(''ad'', ones [4, 4]), (''da'', ones [4, 4]), (''dd'', ones [4, 4])] [4, 4] 2
     (List.product_lists (replicate 2 [0..<2]))
     \<lparr>indices = [SliceAll, SliceAll], even_indices = [SliceAll, SliceAll],
      odd_indices = [SliceAll, SliceAll], odd_even_slices = [SliceAll, SliceAll]\<rparr>
     (ones [4, 4]) =
     Inr (\<lparr>indices = [Slice 1 4 2, Slice 1 4 2], even_indices = [Slice 1 4 4, Slice 1 4 4],
           odd_indices = [Slice 3 4 4, Slice 3 4 4], odd_even_slices = [Slice 3 4 4, Slice 3 4 4]\<rparr>,
          ones [4, 4])"
    by code_simp
  have a: "dict_pop ([[(''ad'', ones [4, 4]), (''da'', ones [4, 4]), (''dd'', ones [4, 4]), (''aa'', ones [4, 4])],
              level_mismatched] ! 1) ''aa'' =
     Inr (ones [4, 4], [(''ad'', ones [4, 4]), (''da'', ones [4, 4]), (''dd'', ones [4, 2])])"
    by code_simp
  have b: "1 < length (remdups (map (\<lambda>kv. shape (snd kv))
         [(''ad'', ones [4, 4]), (''da'', ones [4, 4]), (''dd'', ones [4, 2])]))"
    by code_simp
  from shape_check_covers_details_only[OF a b] s a b show ?thesis by simp
qed




text \<open>
  Claim C7 (the sub-bands of a level). In every coefficient set that a successful call of
  \<^verbatim>\<open>swtn\<close> over \<open>k\<close> axes returns, the keys are pairwise distinct, there are \<open>2 ^ k\<close>
  of them, and they are exactly the strings of length \<open>k\<close> over \<open>a\<close> and \<open>d\<close>; and when
  the forward primitive returns arrays of the shape of its input, every coefficient array
  has the shape of the input signal.
\<close>

theorem swtn_subbands:
  assumes run: "swtn E data wavelet level start_level axes = Inr ret"
      and c: "c \<in> set ret"
  shows "subband_keys (length (default_axes (ndim data) axes)) (map fst c) \<and>
         (shape_preserving E \<longrightarrow> (\<forall>p\<in>set c. shape (snd p) = shape data))"
proof (cases "\<not> have_c99_complex E \<and> iscomplexobj data")
  case False
  with run have r: "swtn_real E data wavelet level start_level axes = Inr ret"
    by (auto simp: swtn_def)
  let ?axes = "normalize_axes (ndim data) (default_axes (ndim data) axes)"
  from swtn_real_Inr[OF r] obtain ws where
    ws: "wavelets_per_axis wavelet ?axes = Inr ws" and
    ord: "computed_in_order E (zip ?axes ws) (length (default_axes (ndim data) axes)) data
            start_level (rev ret)" by blast
  have len: "length (zip ?axes ws) = length (default_axes (ndim data) axes)"
    using wavelets_per_axis_length[OF ws] by (simp add: normalize_axes_def)
  have c': "c \<in> set (rev ret)" using c by simp
  show ?thesis
    using computed_in_order_keys[OF ord c'] computed_in_order_shapes[OF _ ord c'] len
    by auto
next
  case True
  let ?re = "real_part data"
  let ?axes = "normalize_axes (ndim data) (default_axes (ndim data) axes)"
  from run True obtain rs "is" where
    r: "swtn_real E ?re wavelet level start_level axes = Inr rs" and
    comb: "combine_levels rs is = Inr ret"
    by (auto simp: swtn_def split: sum.splits)
  from swtn_real_Inr[OF r] obtain ws where
    ws: "wavelets_per_axis wavelet ?axes = Inr ws" and
    ord: "computed_in_order E (zip ?axes ws) (length (default_axes (ndim data) axes)) ?re
            start_level (rev rs)" by auto
  have len: "length (zip ?axes ws) = length (default_axes (ndim data) axes)"
    using wavelets_per_axis_length[OF ws] by (simp add: normalize_axes_def)
  from combine_levels_Inr[OF comb c] obtain rdict c' where
    rdict: "rdict \<in> set rs" and cc: "c = dict_of_pairs c'" and
    keys: "map fst c' = map fst rdict" and
    sh: "\<forall>p\<in>set c'. \<exists>r. (fst p, r) \<in> set rdict \<and> shape (snd p) = shape r" by blast
  have rd: "rdict \<in> set (rev rs)" using rdict by simp
  have k: "subband_keys (length (default_axes (ndim data) axes)) (map fst rdict)"
    using computed_in_order_keys[OF ord rd] len by simp
  then have "distinct (map fst c')" using keys by (simp add: subband_keys_def)
  then have eq: "c = c'" using cc by (simp add: dict_of_pairs_distinct)
  have "shape_preserving E \<Longrightarrow> \<forall>p\<in>set c. shape (snd p) = shape data"
  proof
    fix p assume sp: "shape_preserving E" and p: "p \<in> set c"
    with sh eq obtain r where "(fst p, r) \<in> set rdict" "shape (snd p) = shape r" by blast
    with computed_in_order_shapes[OF sp ord rd, of "(fst p, r)"]
    show "shape (snd p) = shape data" by simp
  qed
  with k keys eq show ?thesis by auto
qed

theorem swtn_subbands_witness:
  "swtn haar_env sig4 (Single ''db1'') 2 0 None = Inr sig4_coeffs \<and>
   hd sig4_coeffs \<in> set sig4_coeffs \<and> shape_preserving haar_env \<and>
   subband_keys 1 (map fst (hd sig4_coeffs)) \<and>
   list_all (\<lambda>p. shape (snd p) = [4]) (hd sig4_coeffs)"
proof -
  have run: "swtn haar_env sig4 (Single ''db1'') 2 0 None = Inr sig4_coeffs" by code_simp
  have mem: "hd sig4_coeffs \<in> set sig4_coeffs" by (simp add: sig4_coeffs_def)
  have k: "length (default_axes (ndim sig4) None) = 1" by code_simp
  have s: "shape sig4 = [4]" by code_simp
  from swtn_subbands[OF run mem] shape_preserving_haar run mem k s
  show ?thesis by (simp add: list_all_iff)
qed

text \<open>
  Claim C8 (the order of the levels). A successful call of \<^verbatim>\<open>swtn\<close> returns \<open>level\<close>
  coefficient sets (none when \<open>level\<close> is not positive). They are computed in increasing
  order from \<open>start_level\<close>, each from the all-approximation entry of the one before, and
  returned in reverse: element 0 belongs to level index \<open>start_level + level - 1\<close>, the
  last element to \<open>start_level\<close>. For a complex input without C99 support this holds for
  the transforms \<open>rs\<close> and \<open>is\<close> of the real and of the imaginary part, and element
  \<open>n\<close> of the result is the combination of element \<open>n\<close> of \<open>rs\<close> with element \<open>n\<close>
  of \<open>is\<close>: the result is in the same order, deepest level first.
\<close>

theorem swtn_level_order:
  assumes run: "swtn E data wavelet level start_level axes = Inr ret"
  shows "length ret = nat level \<and>
     (\<exists>ws. wavelets_per_axis wavelet (normalize_axes (ndim data) (default_axes (ndim data) axes)) = Inr ws \<and>
        (if \<not> have_c99_complex E \<and> iscomplexobj data then
           \<exists>rs is. combine_levels rs is = Inr ret \<and> length rs = nat level \<and> length is = nat level \<and>
             level_order E (zip (normalize_axes (ndim data) (default_axes (ndim data) axes)) ws)
               (length (default_axes (ndim data) axes)) (real_part data) start_level rs \<and>
             level_order E (zip (normalize_axes (ndim data) (default_axes (ndim data) axes)) ws)
               (length (default_axes (ndim data) axes)) (imag_part data) start_level is \<and>
             (\<forall>n<nat level. combined_level (rs ! n) (is ! n) = Inr (ret ! n))
         else
           level_order E (zip (normalize_axes (ndim data) (default_axes (ndim data) axes)) ws)
             (length (default_axes (ndim data) axes)) data start_level ret))"
proof (cases "\<not> have_c99_complex E \<and> iscomplexobj data")
  case False
  with run have r: "swtn_real E data wavelet level start_level axes = Inr ret"
    by (auto simp: swtn_def)
  from swtn_real_Inr[OF r] computed_level_order False show ?thesis by auto
next
  case True
  from run True obtain rs "is" where
    r: "swtn_real E (real_part data) wavelet level start_level axes = Inr rs" and
    i: "swtn_real E (imag_part data) wavelet level start_level axes = Inr is" and
    comb: "combine_levels rs is = Inr ret"
    by (auto simp: swtn_def split: sum.splits)
  let ?axes = "normalize_axes (ndim data) (default_axes (ndim data) axes)"
  let ?k = "length (default_axes (ndim data) axes)"
  from swtn_real_Inr[OF r] obtain ws where
    ws: "wavelets_per_axis wavelet ?axes = Inr ws" and lr: "length rs = nat level" and
    ordr: "computed_in_order E (zip ?axes ws) ?k (real_part data) start_level (rev rs)"
    by auto
  from swtn_real_Inr[OF i] ws have li: "length is = nat level" and
    ordi: "computed_in_order E (zip ?axes ws) ?k (imag_part data) start_level (rev is)"
    by auto
  have len: "length ret = nat level" using combine_levels_length[OF comb] lr li by simp
  have pos: "\<forall>n<nat level. combined_level (rs ! n) (is ! n) = Inr (ret ! n)"
    using combine_levels_nth[OF comb] len by simp
  have "\<exists>rs is. combine_levels rs is = Inr ret \<and> length rs = nat level \<and>
      length is = nat level \<and>
      level_order E (zip ?axes ws) ?k (real_part data) start_level rs \<and>
      level_order E (zip ?axes ws) ?k (imag_part data) start_level is \<and>
      (\<forall>n<nat level. combined_level (rs ! n) (is ! n) = Inr (ret ! n))"
    using comb lr li computed_level_order[OF ordr] computed_level_order[OF ordi] pos by blast
  with len show ?thesis using True ws by auto
qed

text \<open>
  Two instances: a real signal, and a complex one that takes the complex branch.
\<close>

theorem swtn_level_order_witness:
  "swtn haar_env sig4 (Single ''db1'') 2 0 None = Inr sig4_coeffs \<and>
   length sig4_coeffs = nat 2 \<and>
   level_order haar_env [(0, ''db1'')] 1 sig4 0 sig4_coeffs \<and>
   \<not> have_c99_complex haar_env \<and> iscomplexobj z4 \<and>
   swtn haar_env z4 (Single ''db1'') 2 0 None = Inr z4_coeffs \<and>
   length z4_coeffs = nat 2 \<and>
   (\<exists>rs is. combine_levels rs is = Inr z4_coeffs \<and> length rs = nat 2 \<and> length is = nat 2 \<and>
      level_order haar_env [(0, ''db1'')] 1 (real_part z4) 0 rs \<and>
      level_order haar_env [(0, ''db1'')] 1 (imag_part z4) 0 is \<and>
      (\<forall>n<nat 2. combined_level (rs ! n) (is ! n) = Inr (z4_coeffs ! n)))"
proof -
  have run: "swtn haar_env sig4 (Single ''db1'') 2 0 None = Inr sig4_coeffs" by code_simp
  have k: "length (default_axes (ndim sig4) None) = 1" by code_simp
  have ax: "normalize_axes (ndim sig4) (default_axes (ndim sig4) None) = [0]" by code_simp
  have ws: "wavelets_per_axis (Single ''db1'') [0] = Inr [''db1'']" by code_simp
  have c: "\<not> iscomplexobj sig4" by code_simp
  have real_case: "length sig4_coeffs = nat 2 \<and> level_order haar_env [(0, ''db1'')] 1 sig4 0 sig4_coeffs"
    using swtn_level_order[OF run] k ax ws c by simp
  have runz: "swtn haar_env z4 (Single ''db1'') 2 0 None = Inr z4_coeffs" by code_simp
  have kz: "length (default_axes (ndim z4) None) = 1" by code_simp
  have axz: "normalize_axes (ndim z4) (default_axes (ndim z4) None) = [0]" by code_simp
  have cz: "iscomplexobj z4" by code_simp
  have flag: "\<not> have_c99_complex haar_env" by (simp add: haar_env_def)
  have complex_case: "length z4_coeffs = nat 2 \<and>
    (\<exists>rs is. combine_levels rs is = Inr z4_coeffs \<and> length rs = nat 2 \<and> length is = nat 2 \<and>
      level_order haar_env [(0, ''db1'')] 1 (real_part z4) 0 rs \<and>
      level_order haar_env [(0, ''db1'')] 1 (imag_part z4) 0 is \<and>
      (\<forall>n<nat 2. combined_level (rs ! n) (is ! n) = Inr (z4_coeffs ! n)))"
    using swtn_level_order[OF runz] kz axz ws cz flag by simp
  from run real_case runz complex_case cz flag show ?thesis by simp
qed

text \<open>
  Claim C9 (repeated axes). When two of the axes coincide after negative indices have been
  normalised, \<^verbatim>\<open>swtn\<close> fails: with the uniqueness error, unless the input is an object
  array or has no dimension, which is reported first. \<^verbatim>\<open>swt2\<close> fails as well, and so
  does \<^verbatim>\<open>iswtn\<close> on a coefficient list whose first dictionary holds the
  all-approximation entry; it leaves the list as it was. No axis is dropped silently.
\<close>

theorem duplicate_axes_rejected:
  "(\<not> distinct (normalize_axes (ndim data) as) \<longrightarrow>
      swtn E data wavelet level start_level (Some as) =
        Inl (if buf data = ObjectData then TypeError_not_numeric
             else if ndim data < 1 then ValueError_at_least_1D else ValueError_axes_unique) \<and>
      (\<exists>e. swt2 E data wavelet level start_level as = Inl e \<and>
         e \<in> {ValueError_expected_2_axes, ValueError_axes_unique, ValueError_fewer_dims,
              TypeError_not_numeric, ValueError_at_least_1D})) \<and>
   (max_key_length c0 = Inr k \<longrightarrow> dict_get c0 (replicate k CHR ''a'') = Inr out \<longrightarrow>
      \<not> distinct (normalize_axes (ndim out) as') \<longrightarrow>
      iswtn E (c0 # cs) wavelet' (Some as') = (Inl ValueError_axes_unique, c0 # cs))"
  using swtn_duplicate_axes swt2_duplicate_axes iswtn_duplicate_axes by blast

theorem duplicate_axes_rejected_witness:
  "\<not> distinct (normalize_axes (ndim mat24) [1, - 1]) \<and>
   swtn haar_env mat24 (Single ''db1'') 1 0 (Some [1, - 1]) = Inl ValueError_axes_unique \<and>
   (\<exists>e. swt2 haar_env mat24 (Single ''db1'') 1 0 [1, - 1] = Inl e) \<and>
   max_key_length (hd mat24_coeffs) = Inr 1 \<and>
   iswtn haar_env mat24_coeffs (Single ''db1'') (Some [0, - 2]) =
     (Inl ValueError_axes_unique, mat24_coeffs)"
proof -
  have a: "\<not> distinct (normalize_axes (ndim mat24) [1, - 1])" by code_simp
  have b: "buf mat24 \<noteq> ObjectData" by (simp add: mat24_def)
  have c: "\<not> ndim mat24 < 1" by code_simp
  have mk: "max_key_length (hd mat24_coeffs) = Inr 1" by code_simp
  have g: "dict_get (hd mat24_coeffs) (replicate 1 CHR ''a'') =
      Inr (NDArray [2, 4] (FloatData [3 / 2, 5 / 2, 7 / 2, 5 / 2, 11 / 2, 13 / 2, 15 / 2, 13 / 2]))"
    by code_simp
  have d: "\<not> distinct (normalize_axes (ndim (NDArray [2, 4]
      (FloatData [3 / 2, 5 / 2, 7 / 2, 5 / 2, 11 / 2, 13 / 2, 15 / 2, 13 / 2]))) [0, - 2])"
    by code_simp
  have h: "mat24_coeffs = hd mat24_coeffs # []" by (simp add: mat24_coeffs_def)
  from duplicate_axes_rejected[of mat24 "[1, - 1]" haar_env "Single ''db1''" 1 0
      "hd mat24_coeffs" 1 _ "[0, - 2]" "[]" "Single ''db1''"] a b c mk g d h
  show ?thesis by auto
qed

text \<open>
  Claim C10 (what \<^verbatim>\<open>iswt\<close> reads). Two coefficient lists with the same detail arrays
  and the same approximation array in their first pair give the same result, whatever the
  approximation arrays of the other pairs are.
\<close>

theorem iswt_ignores_finer_approximations:
  assumes "map snd coeffs = map snd coeffs'"
    and "coeffs \<noteq> [] \<longrightarrow> fst (hd coeffs) = fst (hd coeffs')"
  shows "iswt E coeffs w = iswt E coeffs' w"
proof (cases coeffs)
  case Nil
  with assms show ?thesis by simp
next
  case (Cons c0 cs)
  with assms obtain c0' cs' where cs': "coeffs' = c0' # cs'" by (cases coeffs') auto
  have f: "fst c0 = fst c0'" using assms(2) Cons cs' by simp
  have r: "map snd (map (\<lambda>c. (real_part (fst c), real_part (snd c))) coeffs) =
           map snd (map (\<lambda>c. (real_part (fst c), real_part (snd c))) coeffs')"
    using arg_cong[OF assms(1), of "map real_part"] by (simp add: comp_def)
  have i: "map snd (map (\<lambda>c. (imag_part (fst c), imag_part (snd c))) coeffs) =
           map snd (map (\<lambda>c. (imag_part (fst c), imag_part (snd c))) coeffs')"
    using arg_cong[OF assms(1), of "map imag_part"] by (simp add: comp_def)
  have e1: "iswt_real E coeffs w = iswt_real E coeffs' w"
    using iswt_levels_details_only[OF assms(1)] f Cons cs' by (simp add: iswt_real_def)
  have e2: "iswt_real E (map (\<lambda>c. (real_part (fst c), real_part (snd c))) coeffs) w =
      iswt_real E (map (\<lambda>c. (real_part (fst c), real_part (snd c))) coeffs') w"
    using iswt_levels_details_only[OF r] f Cons cs' by (simp add: iswt_real_def)
  have e3: "iswt_real E (map (\<lambda>c. (imag_part (fst c), imag_part (snd c))) coeffs) w =
      iswt_real E (map (\<lambda>c. (imag_part (fst c), imag_part (snd c))) coeffs') w"
    using iswt_levels_details_only[OF i] f Cons cs' by (simp add: iswt_real_def)
  have u: "iswt E coeffs w =
      (if \<not> have_c99_complex E \<and> iscomplexobj (fst c0) then
         (case iswt_real E (map (\<lambda>c. (real_part (fst c), real_part (snd c))) coeffs) w of
            Inl e \<Rightarrow> Inl e
          | Inr r \<Rightarrow>
              (case iswt_real E (map (\<lambda>c. (imag_part (fst c), imag_part (snd c))) coeffs) w of
                 Inl e \<Rightarrow> Inl e
               | Inr i \<Rightarrow> add_1j_times r i))
       else iswt_real E coeffs w)"
    unfolding iswt_def Cons by simp
  have u': "iswt E coeffs' w =
      (if \<not> have_c99_complex E \<and> iscomplexobj (fst c0') then
         (case iswt_real E (map (\<lambda>c. (real_part (fst c), real_part (snd c))) coeffs') w of
            Inl e \<Rightarrow> Inl e
          | Inr r \<Rightarrow>
              (case iswt_real E (map (\<lambda>c. (imag_part (fst c), imag_part (snd c))) coeffs') w of
                 Inl e \<Rightarrow> Inl e
               | Inr i \<Rightarrow> add_1j_times r i))
       else iswt_real E coeffs' w)"
    unfolding iswt_def cs' by simp
  show ?thesis unfolding u u' e1 e2 e3 f ..
qed

theorem iswt_ignores_finer_approximations_witness:
  "iswt haar_env
     [(NDArray [4] (FloatData [5 / 2, 5 / 2, 5 / 2, 5 / 2]), NDArray [4] (FloatData [- 1, 0, 1, 0])),
      (NDArray [4] (FloatData [3 / 2, 5 / 2, 7 / 2, 5 / 2]),
       NDArray [4] (FloatData [- (1 / 2), - (1 / 2), - (1 / 2), 3 / 2]))] ''db1'' =
   iswt haar_env
     [(NDArray [4] (FloatData [5 / 2, 5 / 2, 5 / 2, 5 / 2]), NDArray [4] (FloatData [- 1, 0, 1, 0])),
      (NDArray [7] (FloatData [9, 9, 9, 9, 9, 9, 9]),
       NDArray [4] (FloatData [- (1 / 2), - (1 / 2), - (1 / 2), 3 / 2]))] ''db1'' \<and>
   iswt haar_env
     [(NDArray [4] (FloatData [5 / 2, 5 / 2, 5 / 2, 5 / 2]), NDArray [4] (FloatData [- 1, 0, 1, 0])),
      (NDArray [7] (FloatData [9, 9, 9, 9, 9, 9, 9]),
       NDArray [4] (FloatData [- (1 / 2), - (1 / 2), - (1 / 2), 3 / 2]))] ''db1'' = Inr sig4"
proof -
  have r: "iswt haar_env
     [(NDArray [4] (FloatData [5 / 2, 5 / 2, 5 / 2, 5 / 2]), NDArray [4] (FloatData [- 1, 0, 1, 0])),
      (NDArray [7] (FloatData [9, 9, 9, 9, 9, 9, 9]),
       NDArray [4] (FloatData [- (1 / 2), - (1 / 2), - (1 / 2), 3 / 2]))] ''db1'' = Inr sig4"
    by code_simp
  from iswt_ignores_finer_approximations[of
     "[(NDArray [4] (FloatData [5 / 2, 5 / 2, 5 / 2, 5 / 2]), NDArray [4] (FloatData [- 1, 0, 1, 0])),
      (NDArray [4] (FloatData [3 / 2, 5 / 2, 7 / 2, 5 / 2]),
       NDArray [4] (FloatData [- (1 / 2), - (1 / 2), - (1 / 2), 3 / 2]))]"
     "[(NDArray [4] (FloatData [5 / 2, 5 / 2, 5 / 2, 5 / 2]), NDArray [4] (FloatData [- 1, 0, 1, 0])),
      (NDArray [7] (FloatData [9, 9, 9, 9, 9, 9, 9]),
       NDArray [4] (FloatData [- (1 / 2), - (1 / 2), - (1 / 2), 3 / 2]))]" haar_env "''db1''"] r
  show ?thesis by simp
qed

end
